theory Spec2Isabelle
  imports Main "HOL-Library.Log_Nat"
begin

section \<open>JavaScript numbers\<close>

text \<open>
  A JavaScript \<^verbatim>\<open>number\<close> is an IEEE-754 double: a finite value, one of the two
  infinities, or NaN. Finite values are carried as rationals (every double is a dyadic
  rational); the sign of zero is not distinguished, since no operation of the audio manager
  observes it. Arithmetic rounds to the nearest double, ties to even.
\<close>

datatype jsnum = NaN | NegInf | Fin rat | PosInf

text \<open>The relational operator \<^verbatim>\<open><=\<close>: false as soon as one operand is NaN.\<close>

fun js_le :: "jsnum \<Rightarrow> jsnum \<Rightarrow> bool" where
  "js_le NaN _ = False"
| "js_le _ NaN = False"
| "js_le NegInf _ = True"
| "js_le _ PosInf = True"
| "js_le (Fin a) (Fin b) = (a \<le> b)"
| "js_le _ _ = False"

text \<open>\<^verbatim>\<open>Math.min\<close> and \<^verbatim>\<open>Math.max\<close> on two arguments: NaN if either argument is NaN.\<close>

definition Math_min :: "jsnum \<Rightarrow> jsnum \<Rightarrow> jsnum" where
  "Math_min a b = (if a = NaN \<or> b = NaN then NaN else if js_le a b then a else b)"

definition Math_max :: "jsnum \<Rightarrow> jsnum \<Rightarrow> jsnum" where
  "Math_max a b = (if a = NaN \<or> b = NaN then NaN else if js_le a b then b else a)"

definition round_half_even :: "rat \<Rightarrow> int" where
  "round_half_even x =
     (let n = \<lfloor>x\<rfloor>; d = x - of_int n
      in if d < 1 / 2 then n else if 1 / 2 < d then n + 1 else if even n then n else n + 1)"

text \<open>The binary exponent \<open>e\<close> of a non-zero rational: \<open>2 powi e \<le> \<bar>x\<bar> < 2 powi (e + 1)\<close>.\<close>

definition binade :: "rat \<Rightarrow> int" where
  "binade x =
     (let (p, q) = quotient_of \<bar>x\<bar>; b = bitlen p - bitlen q
      in if 2 powi b \<le> \<bar>x\<bar> then b else b - 1)"

text \<open>
  Rounding of an exact result to a double: 53 significant bits, exponents from \<open>-1022\<close>
  (below that the spacing stays \<open>2 powi (-1074)\<close>, the subnormal range), overflow to an
  infinity from \<open>2 powi 1024\<close> on.
\<close>

definition round_double :: "rat \<Rightarrow> jsnum" where
  "round_double x =
     (if x = 0 then Fin 0
      else let e = max (binade x) (- 1022);
               q = 2 powi (e - 52);
               r = of_int (round_half_even (x / q)) * q
           in if 2 powi 1024 \<le> \<bar>r\<bar> then (if 0 < x then PosInf else NegInf) else Fin
               r)"

text \<open>The operators \<^verbatim>\<open>+\<close> and \<^verbatim>\<open>-\<close> on numbers.\<close>

fun js_add :: "jsnum \<Rightarrow> jsnum \<Rightarrow> jsnum" where
  "js_add NaN _ = NaN"
| "js_add _ NaN = NaN"
| "js_add PosInf NegInf = NaN"
| "js_add NegInf PosInf = NaN"
| "js_add PosInf _ = PosInf"
| "js_add _ PosInf = PosInf"
| "js_add NegInf _ = NegInf"
| "js_add _ NegInf = NegInf"
| "js_add (Fin a) (Fin b) = round_double (a + b)"

fun js_sub :: "jsnum \<Rightarrow> jsnum \<Rightarrow> jsnum" where
  "js_sub NaN _ = NaN"
| "js_sub _ NaN = NaN"
| "js_sub PosInf PosInf = NaN"
| "js_sub NegInf NegInf = NaN"
| "js_sub PosInf _ = PosInf"
| "js_sub _ NegInf = PosInf"
| "js_sub NegInf _ = NegInf"
| "js_sub _ PosInf = NegInf"
| "js_sub (Fin a) (Fin b) = round_double (a - b)"

section \<open>Constants (utils/Constants, AUDIO\_CONFIG)\<close>

definition CONNECTION_TIMEOUT :: nat where "CONNECTION_TIMEOUT = 10000"
definition RETRY_DELAY :: nat where "RETRY_DELAY = 5000"
definition DEFAULT_VOLUME :: jsnum where "DEFAULT_VOLUME = Fin 1"
definition MAX_VOLUME :: jsnum where "MAX_VOLUME = Fin 2"
definition MIN_VOLUME :: jsnum where "MIN_VOLUME = Fin 0"

text \<open>The literal \<^verbatim>\<open>0.1\<close> denotes the double nearest to one tenth.\<close>

definition VOLUME_STEP :: jsnum where
  "VOLUME_STEP = Fin (3602879701896397 / 36028797018963968)"

section \<open>Objects of the platform: processes, players, connections, guilds\<close>

type_synonym guild_id = string
type_synonym channel_id = string
type_synonym url = string
type_synonym conn_ref = nat
type_synonym proc_ref = nat
type_synonym player_ref = nat
type_synonym info = "(string \<times> string) list"

datatype signal = SIGTERM | SIGKILL

text \<open>
  A child process handle. \<open>proc_killed\<close> is the handle's \<^verbatim>\<open>killed\<close> property: set once
  \<^verbatim>\<open>kill\<close> has delivered a signal. \<open>proc_exited\<close> records that the process has ended;
  a signal can no longer be delivered then.
\<close>

record child_process =
  proc_args :: "string list"
  proc_killed :: bool
  proc_exited :: bool
  proc_signals :: "signal list"

definition proc_kill :: "signal \<Rightarrow> child_process \<Rightarrow> child_process" where
  "proc_kill sig p =
     (if proc_exited p then p
      else p\<lparr>proc_killed := True, proc_signals := proc_signals p @ [sig]\<rparr>)"


definition proc_unsignalled :: "child_process \<Rightarrow> bool" where
  "proc_unsignalled p \<longleftrightarrow> \<not> proc_killed p \<and> \<not> proc_exited p"

text \<open>
  An audio resource reads the standard output of one process. \<open>res_volume\<close> is the gain of
  its inline volume transformer (present because the resource is created with
  \<^verbatim>\<open>inlineVolume: true\<close>); \<open>res_silence_remaining\<close> is \<open>-1\<close> until the player was asked to
  stop, then the number of padding frames left.
\<close>

record audio_resource =
  res_input :: proc_ref
  res_volume :: "jsnum option"
  res_silence_remaining :: int

datatype player_status = Idle | Buffering | Playing | Paused | AutoPaused

text \<open>
  The state of an audio player is a tagged union: every state but the idle one carries the
  resource being played.
\<close>

datatype player_state =
    IdleState
  | BufferingState audio_resource
  | PlayingState audio_resource
  | PausedState audio_resource
  | AutoPausedState audio_resource

fun status_of :: "player_state \<Rightarrow> player_status" where
  "status_of IdleState = Idle"
| "status_of (BufferingState r) = Buffering"
| "status_of (PlayingState r) = Playing"
| "status_of (PausedState r) = Paused"
| "status_of (AutoPausedState r) = AutoPaused"

fun resource_of :: "player_state \<Rightarrow> audio_resource option" where
  "resource_of IdleState = None"
| "resource_of (BufferingState r) = Some r"
| "resource_of (PlayingState r) = Some r"
| "resource_of (PausedState r) = Some r"
| "resource_of (AutoPausedState r) = Some r"

fun map_resource :: "(audio_resource \<Rightarrow> audio_resource) \<Rightarrow> player_state
    \<Rightarrow> player_state" where
  "map_resource f IdleState = IdleState"
| "map_resource f (BufferingState r) = BufferingState (f r)"
| "map_resource f (PlayingState r) = PlayingState (f r)"
| "map_resource f (PausedState r) = PausedState (f r)"
| "map_resource f (AutoPausedState r) = AutoPausedState (f r)"

text \<open>
  The player's control methods. \<^verbatim>\<open>pause\<close> acts only on a playing player, \<^verbatim>\<open>unpause\<close>
  only on a paused one. \<^verbatim>\<open>stop()\<close> without force lets the resource play out its silence
  padding (five frames for a resource created with the default options) before the player
  turns idle by itself. \<^verbatim>\<open>play\<close> attaches a fresh resource, which is buffered until its
  stream becomes readable.
\<close>

definition silencePaddingFrames :: int where "silencePaddingFrames = 5"

fun player_pause :: "player_state \<Rightarrow> player_state" where
  "player_pause (PlayingState r) = PausedState r"
| "player_pause st = st"

fun player_unpause :: "player_state \<Rightarrow> player_state" where
  "player_unpause (PausedState r) = PlayingState r"
| "player_unpause st = st"

definition request_stop :: "audio_resource \<Rightarrow> audio_resource" where
  "request_stop r =
     (if res_silence_remaining r = - 1 then r\<lparr>res_silence_remaining :=
         silencePaddingFrames\<rparr>
      else r)"

definition player_stop :: "player_state \<Rightarrow> player_state" where
  "player_stop st = map_resource request_stop st"

definition player_play :: "audio_resource \<Rightarrow> player_state \<Rightarrow> player_state"
    where
  "player_play r st = BufferingState r"

datatype player_event = OnIdle | OnPlaying | OnPaused | OnError

record audio_player =
  player_id :: player_ref
  player_state :: player_state
  player_handlers :: "player_event list"

datatype conn_status = Signalling | Connecting | Ready | Disconnected | Destroyed

datatype conn_event = OnDisconnected | OnDestroyed

record voice_connection =
  conn_guild :: guild_id
  join_channel :: channel_id
  conn_status :: conn_status
  conn_subscriber :: "player_ref option"
  conn_handlers :: "conn_event list"

datatype permission = Connect | Speak | ViewChannel

text \<open>
  A channel of the guild's cache: its numeric type (2 is a voice channel, 13 a stage
  channel) and the permissions the bot's member has in it (\<^verbatim>\<open>permissionsFor\<close> yields
  \<^verbatim>\<open>null\<close> when the member cannot be resolved).
\<close>

record channel =
  channel_type :: nat
  permissionsFor :: "permission set option"

record guild =
  guild_channels :: "channel_id \<rightharpoonup> channel"

datatype stream_type = RADIO | QURAN

text \<open>The entry of \<^verbatim>\<open>currentStreams\<close>: what \<^verbatim>\<open>playRadio\<close> and \<^verbatim>\<open>playQuran\<close> store.\<close>

datatype stream_info =
    RadioStream url info nat
  | QuranStream url string string info nat

fun stream_type_of :: "stream_info \<Rightarrow> stream_type" where
  "stream_type_of (RadioStream u i t) = RADIO"
| "stream_type_of (QuranStream u sn rn m t) = QURAN"

fun stream_url :: "stream_info \<Rightarrow> url" where
  "stream_url (RadioStream u i t) = u"
| "stream_url (QuranStream u sn rn m t) = u"

datatype timer_action = RestartRadio guild_id | ForceKill proc_ref | Unsuppress guild_id

type_synonym timer = "nat \<times> timer_action"

datatype error =
    InvalidChannel | PermissionDenied | TypeError | ConnectionTimeout nat | NoPlayer
  | SpawnFailed

datatype wait_outcome = ReachesReady | TimesOut

text \<open>Whether the platform creates the process that \<^verbatim>\<open>spawn\<close> asks for.\<close>

datatype spawn_outcome = Spawns | SpawnThrows

section \<open>The audio manager's state\<close>

text \<open>
  The eight maps of the \<^verbatim>\<open>AudioManager\<close> object, followed by the part of the platform the
  manager acts on: the voice connections the voice library tracks per guild
  (\<^verbatim>\<open>getVoiceConnection\<close>), the spawned processes, the pending timers and the clock.
  \<open>connections\<close> is kept in insertion order, which \<^verbatim>\<open>shutdown\<close> iterates over.
\<close>

record manager =
  connections :: "(guild_id \<times> conn_ref) list"
  players :: "guild_id \<rightharpoonup> audio_player"
  currentStreams :: "guild_id \<rightharpoonup> stream_info"
  volumes :: "guild_id \<rightharpoonup> jsnum"
  ffmpegProcesses :: "guild_id \<rightharpoonup> proc_ref"
  guildSettings :: "guild_id \<rightharpoonup> info"
  connectionListeners :: "guild_id \<rightharpoonup> (conn_ref \<times> conn_event) list"
  playerListeners :: "guild_id \<rightharpoonup> (player_ref \<times> player_event) list"
  voice_connections :: "conn_ref \<Rightarrow> voice_connection"
  next_conn :: nat
  voice_registry :: "guild_id \<rightharpoonup> conn_ref"
  processes :: "proc_ref \<Rightarrow> child_process"
  next_proc :: nat
  next_player :: nat
  timers :: "timer list"
  now :: nat

definition no_process :: child_process where
  "no_process = \<lparr>proc_args = [], proc_killed = False, proc_exited = True, proc_signals =
      []\<rparr>"

definition no_connection :: voice_connection where
  "no_connection = \<lparr>conn_guild = [], join_channel = [], conn_status = Destroyed,
     conn_subscriber = None, conn_handlers = []\<rparr>"

text \<open>The state the constructor leaves: every map empty.\<close>

definition initial :: manager where
  "initial = \<lparr>connections = [], players = Map.empty, currentStreams = Map.empty,
     volumes = Map.empty, ffmpegProcesses = Map.empty, guildSettings = Map.empty,
     connectionListeners = Map.empty, playerListeners = Map.empty,
     voice_connections = (\<lambda>c. no_connection), next_conn = 0, voice_registry = Map.empty,
     processes = (\<lambda>p. no_process), next_proc = 0, next_player = 0, timers = [], now =
         0\<rparr>"

definition connection_of :: "manager \<Rightarrow> guild_id \<Rightarrow> conn_ref option" where
  "connection_of s g = map_of (connections s) g"

definition set_connection :: "guild_id \<Rightarrow> conn_ref \<Rightarrow> manager \<Rightarrow>
    manager" where
  "set_connection g c s =
     s\<lparr>connections :=
         (if map_of (connections s) g = None then connections s @ [(g, c)]
          else map (\<lambda>(k, v). if k = g then (k, c) else (k, v)) (connections s))\<rparr>"

definition delete_connection :: "guild_id \<Rightarrow> manager \<Rightarrow> manager" where
  "delete_connection g s = s\<lparr>connections := filter (\<lambda>(k, v). k \<noteq> g)
      (connections s)\<rparr>"

definition update_player :: "guild_id \<Rightarrow> (audio_player \<Rightarrow> audio_player)
    \<Rightarrow> manager \<Rightarrow> manager" where
  "update_player g f s =
     (case players s g of None \<Rightarrow> s | Some pl \<Rightarrow> s\<lparr>players :=
         (players s)(g \<mapsto> f pl)\<rparr>)"

definition update_connection ::
  "conn_ref \<Rightarrow> (voice_connection \<Rightarrow> voice_connection) \<Rightarrow> manager
      \<Rightarrow> manager" where
  "update_connection c f s =
     s\<lparr>voice_connections := (voice_connections s)(c := f (voice_connections s c))\<rparr>"

definition getVoiceConnection :: "manager \<Rightarrow> guild_id \<Rightarrow> conn_ref option"
    where
  "getVoiceConnection s g = voice_registry s g"

section \<open>The voice library's connection registry\<close>

text \<open>
  \<^verbatim>\<open>connection.destroy()\<close> throws on a connection that is destroyed already; the
  manager catches that and only warns, so the state is unchanged then. Otherwise the
  connection leaves the library's registry and ends in the state \<open>Destroyed\<close>.
\<close>

definition conn_destroy :: "conn_ref \<Rightarrow> manager \<Rightarrow> manager" where
  "conn_destroy c s =
     (let vc = voice_connections s c
      in if conn_status vc = Destroyed then s
         else (update_connection c (\<lambda>vc. vc\<lparr>conn_status := Destroyed\<rparr>) s)
                \<lparr>voice_registry :=
                   (if voice_registry s (conn_guild vc) = Some c
                    then (voice_registry s)(conn_guild vc := None) else voice_registry s)\<rparr>)"

text \<open>
  The library's \<^verbatim>\<open>joinVoiceChannel\<close>: a connection it still tracks for the guild and that
  is not destroyed is handed back (rejoined towards the new channel when it was
  disconnected); otherwise a new connection is created, signalling, and tracked.
\<close>

definition lib_joinVoiceChannel :: "manager \<Rightarrow> guild_id \<Rightarrow> channel_id
    \<Rightarrow> conn_ref \<times> manager" where
  "lib_joinVoiceChannel s g ch =
     (let fresh = (next_conn s,
                   s\<lparr>voice_connections := (voice_connections s)(next_conn s :=
                        \<lparr>conn_guild = g, join_channel = ch, conn_status = Signalling,
                         conn_subscriber = None, conn_handlers = []\<rparr>),
                     voice_registry := (voice_registry s)(g \<mapsto> next_conn s),
                     next_conn := Suc (next_conn s)\<rparr>)
      in case voice_registry s g of
           None \<Rightarrow> fresh
         | Some c \<Rightarrow>
             if conn_status (voice_connections s c) = Destroyed then fresh
             else if conn_status (voice_connections s c) = Disconnected
             then (c, update_connection c
                        (\<lambda>vc. vc\<lparr>join_channel := ch, conn_status :=
                            Signalling\<rparr>) s)
             else (c, s))"

text \<open>
  \<^verbatim>\<open>entersState(connection, Ready, timeout)\<close>: resolves at once on a ready connection;
  otherwise the platform decides whether the connection becomes ready within the timeout.
\<close>

definition entersState_Ready :: "manager \<Rightarrow> conn_ref \<Rightarrow> nat \<Rightarrow>
    wait_outcome \<Rightarrow> (error + unit) \<times> manager" where
  "entersState_Ready s c timeout w =
     (if conn_status (voice_connections s c) = Ready then (Inr (), s)
      else case w of
             ReachesReady \<Rightarrow> (Inr (), update_connection c (\<lambda>vc.
                 vc\<lparr>conn_status := Ready\<rparr>) s)
           | TimesOut \<Rightarrow> (Inl (ConnectionTimeout timeout), s))"

definition createAudioPlayer :: "manager \<Rightarrow> audio_player \<times> manager" where
  "createAudioPlayer s =
     (\<lparr>player_id = next_player s, player_state = IdleState, player_handlers = []\<rparr>,
      s\<lparr>next_player := Suc (next_player s)\<rparr>)"

definition createAudioResource :: "proc_ref \<Rightarrow> audio_resource" where
  "createAudioResource p = \<lparr>res_input = p, res_volume = Some (Fin 1), res_silence_remaining
      = - 1\<rparr>"

definition resource_setVolume :: "jsnum \<Rightarrow> audio_resource \<Rightarrow> audio_resource"
    where
  "resource_setVolume v r = (case res_volume r of None \<Rightarrow> r | Some old \<Rightarrow>
      r\<lparr>res_volume := Some v\<rparr>)"

section \<open>Volume management\<close>

definition getVolume :: "manager \<Rightarrow> guild_id \<Rightarrow> jsnum" where
  "getVolume s g = (case volumes s g of None \<Rightarrow> DEFAULT_VOLUME | Some v \<Rightarrow> v)"

definition isPlayerReady :: "audio_player option \<Rightarrow> bool" where
  "isPlayerReady player =
     (case player of
        None \<Rightarrow> False
      | Some pl \<Rightarrow> status_of (player_state pl) \<noteq> Idle \<and> resource_of
          (player_state pl) \<noteq> None)"

definition setVolume :: "manager \<Rightarrow> guild_id \<Rightarrow> jsnum \<Rightarrow> bool
    \<times> manager" where
  "setVolume s g volume =
     (let clampedVolume = Math_max MIN_VOLUME (Math_min MAX_VOLUME volume);
          s1 = s\<lparr>volumes := (volumes s)(g \<mapsto> clampedVolume)\<rparr>
      in if isPlayerReady (players s1 g)
         then (True, update_player g
                 (\<lambda>pl. pl\<lparr>player_state :=
                          map_resource (resource_setVolume clampedVolume) (player_state
                              pl)\<rparr>) s1)
         else (True, s1))"

definition increaseVolume :: "manager \<Rightarrow> guild_id \<Rightarrow> bool \<times> manager"
    where
  "increaseVolume s g = setVolume s g (js_add (getVolume s g) VOLUME_STEP)"

definition decreaseVolume :: "manager \<Rightarrow> guild_id \<Rightarrow> bool \<times> manager"
    where
  "decreaseVolume s g = setVolume s g (js_sub (getVolume s g) VOLUME_STEP)"

section \<open>The transcoder process\<close>

definition ffmpeg_args :: "url \<Rightarrow> string list" where
  "ffmpeg_args u =
     [''-loglevel'', ''error'', ''-reconnect'', ''1'', ''-reconnect_streamed'', ''1'',
      ''-reconnect_delay_max'', ''5'', ''-analyzeduration'', ''0'', ''-i'', u]
     @ [''-f'', ''s16le'', ''-ar'', ''48000'', ''-ac'', ''2'', ''pipe:1'']"

text \<open>
  \<^verbatim>\<open>spawn\<close> throws, before any process exists, when one of its arguments holds a NUL
  character or when the platform refuses to create the process. \<^verbatim>\<open>createFFmpegStream\<close>
  catches nothing, so the exception reaches its caller.
\<close>

definition spawn_throws :: "spawn_outcome \<Rightarrow> string list \<Rightarrow> bool" where
  "spawn_throws sp args \<longleftrightarrow> sp = SpawnThrows \<or> CHR 0x00 \<in> set (concat
      args)"

definition createFFmpegStream ::
  "manager \<Rightarrow> url \<Rightarrow> spawn_outcome \<Rightarrow> (error + proc_ref) \<times>
      manager" where
  "createFFmpegStream s u sp =
     (if spawn_throws sp (ffmpeg_args u) then (Inl SpawnFailed, s)
      else (Inr (next_proc s),
            s\<lparr>processes := (processes s)(next_proc s :=
                 \<lparr>proc_args = ffmpeg_args u, proc_killed = False, proc_exited = False,
                  proc_signals = []\<rparr>),
              next_proc := Suc (next_proc s)\<rparr>))"

definition cleanupFFmpeg :: "manager \<Rightarrow> guild_id \<Rightarrow> manager" where
  "cleanupFFmpeg s g =
     (let s1 = (case ffmpegProcesses s g of
                  None \<Rightarrow> s
                | Some ffmpeg \<Rightarrow>
                    if \<not> proc_killed (processes s ffmpeg)
                    then s\<lparr>processes := (processes s)(ffmpeg := proc_kill SIGTERM
                        (processes s ffmpeg)),
                           timers := timers s @ [(2000, ForceKill ffmpeg)]\<rparr>
                    else s)
      in s1\<lparr>ffmpegProcesses := (ffmpegProcesses s1)(g := None)\<rparr>)"

section \<open>Playback\<close>

definition stopCurrentPlayback :: "manager \<Rightarrow> guild_id \<Rightarrow> manager" where
  "stopCurrentPlayback s g =
     (let s1 = update_player g (\<lambda>pl. pl\<lparr>player_state := player_stop (player_state
         pl)\<rparr>) s;
          s2 = s1\<lparr>currentStreams := (currentStreams s1)(g := None)\<rparr>
      in cleanupFFmpeg s2 g)"

text \<open>
  The two play operations share one body; they differ in the descriptor they record.
  Everything happens inside one \<^verbatim>\<open>try\<close>, whose handler reclaims the guild's process
  entry and rethrows. Without a player the error is raised before anything else happens.
  With a player the current playback is stopped first; when \<^verbatim>\<open>spawn\<close> then throws, the
  handler runs on the stopped state and no process is registered.
\<close>

definition startStream ::
  "manager \<Rightarrow> guild_id \<Rightarrow> url \<Rightarrow> stream_info \<Rightarrow>
      spawn_outcome
     \<Rightarrow> (error + bool) \<times> manager" where
  "startStream s g u descriptor sp =
     (case players s g of
        None \<Rightarrow> (Inl NoPlayer, cleanupFFmpeg s g)
      | Some player \<Rightarrow>
          (case createFFmpegStream (stopCurrentPlayback s g) u sp of
             (Inl e, s2) \<Rightarrow> (Inl e, cleanupFFmpeg s2 g)
           | (Inr ffmpeg, s2) \<Rightarrow>
               (let s3 = s2\<lparr>ffmpegProcesses := (ffmpegProcesses s2)(g \<mapsto>
                   ffmpeg)\<rparr>;
                    resource = resource_setVolume (getVolume s3 g) (createAudioResource ffmpeg);
                    s4 = update_player g
                           (\<lambda>pl. pl\<lparr>player_state := player_play resource
                               (player_state pl)\<rparr>) s3
                in (Inr True, s4\<lparr>currentStreams := (currentStreams s4)(g \<mapsto>
                    descriptor)\<rparr>))))"

definition playRadio ::
  "manager \<Rightarrow> guild_id \<Rightarrow> url \<Rightarrow> info \<Rightarrow> spawn_outcome
      \<Rightarrow> (error + bool) \<times> manager" where
  "playRadio s g streamUrl stationInfo sp =
     startStream s g streamUrl (RadioStream streamUrl stationInfo (now s)) sp"

definition playQuran ::
  "manager \<Rightarrow> guild_id \<Rightarrow> url \<Rightarrow> string \<Rightarrow> string
      \<Rightarrow> info \<Rightarrow> spawn_outcome
     \<Rightarrow> (error + bool) \<times> manager" where
  "playQuran s g audioUrl surahName reciterName metadata sp =
     startStream s g audioUrl (QuranStream audioUrl surahName reciterName metadata (now s)) sp"

text \<open>\<^verbatim>\<open>restartRadio\<close> logs a failure of \<^verbatim>\<open>playRadio\<close> and carries on.\<close>

definition restartRadio :: "manager \<Rightarrow> guild_id \<Rightarrow> spawn_outcome
    \<Rightarrow> manager" where
  "restartRadio s g sp =
     (case currentStreams s g of
        Some (RadioStream u stationInfo t) \<Rightarrow> snd (playRadio s g u stationInfo sp)
      | _ \<Rightarrow> s)"

definition pauseAudio :: "manager \<Rightarrow> guild_id \<Rightarrow> bool \<times> manager" where
  "pauseAudio s g =
     (if \<not> isPlayerReady (players s g) then (False, s)
      else case players s g of
             None \<Rightarrow> (False, s)
           | Some player \<Rightarrow>
               if status_of (player_state player) = Playing
               then (True, update_player g
                        (\<lambda>pl. pl\<lparr>player_state := player_pause (player_state
                            pl)\<rparr>) s)
               else (False, s))"

definition resumeAudio :: "manager \<Rightarrow> guild_id \<Rightarrow> bool \<times> manager" where
  "resumeAudio s g =
     (if \<not> isPlayerReady (players s g) then (False, s)
      else case players s g of
             None \<Rightarrow> (False, s)
           | Some player \<Rightarrow>
               if status_of (player_state player) = Paused
               then (True, update_player g
                        (\<lambda>pl. pl\<lparr>player_state := player_unpause (player_state
                            pl)\<rparr>) s)
               else (False, s))"

definition stopAudio :: "manager \<Rightarrow> guild_id \<Rightarrow> bool \<times> manager" where
  "stopAudio s g =
     (case players s g of
        None \<Rightarrow> (False, s)
      | Some player \<Rightarrow>
          let wasPlaying = (status_of (player_state player) = Playing
                            \<or> status_of (player_state player) = Paused)
          in if wasPlaying then (True, stopCurrentPlayback s g) else (False, s))"

section \<open>Event listeners\<close>

definition setupConnectionListeners :: "manager \<Rightarrow> guild_id \<Rightarrow> conn_ref
    \<Rightarrow> manager" where
  "setupConnectionListeners s g c =
     (let s1 = update_connection c
                 (\<lambda>vc. vc\<lparr>conn_handlers := conn_handlers vc @ [OnDisconnected,
                     OnDestroyed]\<rparr>) s
      in s1\<lparr>connectionListeners :=
              (connectionListeners s1)(g \<mapsto> [(c, OnDisconnected), (c,
                  OnDestroyed)])\<rparr>)"

definition setupPlayerListeners :: "manager \<Rightarrow> guild_id \<Rightarrow> player_ref
    \<Rightarrow> manager" where
  "setupPlayerListeners s g p =
     (let s1 = update_player g
                 (\<lambda>pl. if player_id pl = p
                       then pl\<lparr>player_handlers :=
                                player_handlers pl @ [OnIdle, OnPlaying, OnPaused, OnError]\<rparr>
                       else pl) s
      in s1\<lparr>playerListeners :=
              (playerListeners s1)(g \<mapsto> [(p, OnIdle), (p, OnPlaying), (p, OnPaused), (p,
                  OnError)])\<rparr>)"

definition connection_off :: "conn_ref \<times> conn_event \<Rightarrow> manager \<Rightarrow>
    manager" where
  "connection_off l s =
     update_connection (fst l) (\<lambda>vc. vc\<lparr>conn_handlers := remove1 (snd l)
         (conn_handlers vc)\<rparr>) s"

definition player_off :: "guild_id \<Rightarrow> player_ref \<times> player_event \<Rightarrow>
    manager \<Rightarrow> manager" where
  "player_off g l s =
     update_player g
       (\<lambda>pl. if player_id pl = fst l
             then pl\<lparr>player_handlers := remove1 (snd l) (player_handlers pl)\<rparr> else
                 pl) s"

definition cleanupEventListeners :: "manager \<Rightarrow> guild_id \<Rightarrow> manager" where
  "cleanupEventListeners s g =
     (let s1 = (case connectionListeners s g of
                  None \<Rightarrow> s
                | Some connectionCleanup \<Rightarrow>
                    (fold connection_off connectionCleanup s)
                      \<lparr>connectionListeners := (connectionListeners s)(g := None)\<rparr>)
      in case playerListeners s1 g of
           None \<Rightarrow> s1
         | Some playerCleanup \<Rightarrow>
             (fold (player_off g) playerCleanup s1)
               \<lparr>playerListeners := (playerListeners s1)(g := None)\<rparr>)"

text \<open>The player's handlers, as \<^verbatim>\<open>setupPlayerListeners\<close> defines them for guild \<open>g\<close>.\<close>

definition idleListener :: "manager \<Rightarrow> guild_id \<Rightarrow> manager" where
  "idleListener s g =
     (case currentStreams s g of
        None \<Rightarrow> s
      | Some currentStream \<Rightarrow>
          if stream_type_of currentStream = RADIO
          then s\<lparr>timers := timers s @ [(1000, RestartRadio g)]\<rparr>
          else if stream_type_of currentStream = QURAN
          then cleanupFFmpeg (s\<lparr>currentStreams := (currentStreams s)(g := None)\<rparr>) g
          else s)"

definition errorListener :: "manager \<Rightarrow> guild_id \<Rightarrow> manager" where
  "errorListener s g =
     (if map_option stream_type_of (currentStreams s g) = Some RADIO
      then s\<lparr>timers := timers s @ [(RETRY_DELAY, RestartRadio g)]\<rparr>
      else cleanupFFmpeg (s\<lparr>currentStreams := (currentStreams s)(g := None)\<rparr>) g)"

text \<open>
  What a timer does when it fires; the outcome of \<^verbatim>\<open>spawn\<close> matters to a restart only.
\<close>

definition fire :: "timer_action \<Rightarrow> spawn_outcome \<Rightarrow> manager \<Rightarrow>
    manager" where
  "fire a sp s =
     (case a of
        RestartRadio g \<Rightarrow> restartRadio s g sp
      | ForceKill p \<Rightarrow>
          if \<not> proc_killed (processes s p)
          then s\<lparr>processes := (processes s)(p := proc_kill SIGKILL (processes s p))\<rparr>
              else s
      | Unsuppress g \<Rightarrow> s)"

section \<open>Connection management\<close>

text \<open>\<^verbatim>\<open>this.connections.get(guildId) || getVoiceConnection(guildId)\<close>\<close>

definition existingConnection :: "manager \<Rightarrow> guild_id \<Rightarrow> conn_ref option"
    where
  "existingConnection s g =
     (case connection_of s g of Some c \<Rightarrow> Some c | None \<Rightarrow>
         getVoiceConnection s g)"

text \<open>
  \<^verbatim>\<open>cleanupGuildResources\<close> ends with the comment that the volume and the guild
  settings are kept; it deletes the guild's connection, player and stream entries.
\<close>

definition cleanupGuildResources :: "manager \<Rightarrow> guild_id \<Rightarrow> manager" where
  "cleanupGuildResources s g =
     (let s1 = cleanupFFmpeg s g;
          s2 = cleanupEventListeners s1 g;
          s3 = (case existingConnection s2 g of None \<Rightarrow> s2 | Some c \<Rightarrow>
              conn_destroy c s2);
          s4 = delete_connection g s3;
          s5 = s4\<lparr>players := (players s4)(g := None)\<rparr>
      in s5\<lparr>currentStreams := (currentStreams s5)(g := None)\<rparr>)"

text \<open>The connection's handlers, as \<^verbatim>\<open>setupConnectionListeners\<close> defines them.\<close>

definition disconnectedListener :: "manager \<Rightarrow> guild_id \<Rightarrow> bool
    \<Rightarrow> manager" where
  "disconnectedListener s g recovers = (if recovers then s else cleanupGuildResources s g)"

definition destroyedListener :: "manager \<Rightarrow> guild_id \<Rightarrow> manager" where
  "destroyedListener s g = cleanupGuildResources s g"

text \<open>
  The validation that opens \<^verbatim>\<open>joinVoiceChannel\<close>: the channel must be in the guild's
  cache with type 2, and the bot must hold Connect and Speak there.
\<close>

definition validateChannel :: "guild \<Rightarrow> channel_id \<Rightarrow> error + channel" where
  "validateChannel gd channelId =
     (case guild_channels gd channelId of
        None \<Rightarrow> Inl InvalidChannel
      | Some ch \<Rightarrow>
          (if channel_type ch \<noteq> 2 then Inl InvalidChannel
           else (case permissionsFor ch of
                   None \<Rightarrow> Inl TypeError
                 | Some permissions \<Rightarrow>
                     (if Connect \<notin> permissions \<or> Speak \<notin> permissions
                      then Inl PermissionDenied else Inr ch))))"

definition sameChannelHealthy :: "manager \<Rightarrow> conn_ref \<Rightarrow> channel_id
    \<Rightarrow> bool" where
  "sameChannelHealthy s c channelId \<longleftrightarrow>
     join_channel (voice_connections s c) = channelId
     \<and> conn_status (voice_connections s c) \<noteq> Destroyed
     \<and> conn_status (voice_connections s c) \<noteq> Disconnected"

text \<open>The branch that keeps the existing connection, creating a player only if none is stored.\<close>

definition reuseConnection ::
  "manager \<Rightarrow> guild_id \<Rightarrow> conn_ref \<Rightarrow> (error + conn_ref \<times>
      player_ref) \<times> manager" where
  "reuseConnection s g c =
     (let s1 = (if connection_of s g = None then set_connection g c s else s)
      in case players s1 g of
           Some player \<Rightarrow> (Inr (c, player_id player), s1)
         | None \<Rightarrow>
             (let (player, s2) = createAudioPlayer s1;
                  s3 = update_connection c
                         (\<lambda>vc. vc\<lparr>conn_subscriber := Some (player_id
                             player)\<rparr>) s2;
                  s4 = s3\<lparr>players := (players s3)(g \<mapsto> player)\<rparr>;
                  s5 = setupPlayerListeners s4 g (player_id player)
              in (Inr (c, player_id player), s5)))"

text \<open>
  The branch that replaces whatever the guild had. First part: clean up, connect,
  create the player, subscribe it, and store connection and player.
\<close>

definition openConnection ::
  "manager \<Rightarrow> guild_id \<Rightarrow> channel_id \<Rightarrow> channel \<Rightarrow>
      (conn_ref \<times> player_ref) \<times> manager" where
  "openConnection s g channelId ch =
     (let s1 = cleanupGuildResources s g;
          (c, s2) = lib_joinVoiceChannel s1 g channelId;
          s3 = (if channel_type ch = 13
                then s2\<lparr>timers := timers s2 @ [(1500, Unsuppress g)]\<rparr> else s2);
          (player, s4) = createAudioPlayer s3;
          s5 = update_connection c (\<lambda>vc. vc\<lparr>conn_subscriber := Some (player_id
              player)\<rparr>) s4;
          s6 = set_connection g c s5;
          s7 = s6\<lparr>players := (players s6)(g \<mapsto> player)\<rparr>
      in ((c, player_id player), s7))"

text \<open>
  Second part: wait for the connection to be ready, and only then attach the listeners.
  A timeout leaves the stored connection and player to the \<^verbatim>\<open>catch\<close>.
\<close>

definition replaceConnection ::
  "manager \<Rightarrow> guild_id \<Rightarrow> channel_id \<Rightarrow> channel \<Rightarrow>
      wait_outcome
     \<Rightarrow> (error + conn_ref \<times> player_ref) \<times> manager" where
  "replaceConnection s g channelId ch w =
     (let ((c, p), s7) = openConnection s g channelId ch
      in case entersState_Ready s7 c CONNECTION_TIMEOUT w of
           (Inl e, s8) \<Rightarrow> (Inl e, s8)
         | (Inr u, s8) \<Rightarrow>
             (let s9 = setupConnectionListeners s8 g c;
                  s10 = setupPlayerListeners s9 g p
              in (Inr (c, p), s10)))"

text \<open>The body of \<^verbatim>\<open>joinVoiceChannel\<close> inside its \<^verbatim>\<open>try\<close>.\<close>

definition join_try ::
  "manager \<Rightarrow> guild_id \<Rightarrow> channel_id \<Rightarrow> guild \<Rightarrow>
      wait_outcome
     \<Rightarrow> (error + conn_ref \<times> player_ref) \<times> manager" where
  "join_try s g channelId gd w =
     (case validateChannel gd channelId of
        Inl e \<Rightarrow> (Inl e, s)
      | Inr ch \<Rightarrow>
          (case existingConnection s g of
             None \<Rightarrow> replaceConnection s g channelId ch w
           | Some c \<Rightarrow>
               (if sameChannelHealthy s c channelId then reuseConnection s g c
                else replaceConnection s g channelId ch w)))"

text \<open>The \<^verbatim>\<open>catch\<close> of \<^verbatim>\<open>joinVoiceChannel\<close>: clean the guild up, then rethrow.\<close>

definition joinVoiceChannel ::
  "manager \<Rightarrow> guild_id \<Rightarrow> channel_id \<Rightarrow> guild \<Rightarrow>
      wait_outcome
     \<Rightarrow> (error + conn_ref \<times> player_ref) \<times> manager" where
  "joinVoiceChannel s g channelId gd w =
     (case join_try s g channelId gd w of
        (Inl e, s1) \<Rightarrow> (Inl e, cleanupGuildResources s1 g)
      | (Inr r, s1) \<Rightarrow> (Inr r, s1))"

text \<open>
  \<^verbatim>\<open>leaveVoiceChannel\<close> answers \<^verbatim>\<open>false\<close> only from its \<^verbatim>\<open>catch\<close>; the cleanup
  catches its own failures, so that branch is never entered.
\<close>

definition leaveVoiceChannel :: "manager \<Rightarrow> guild_id \<Rightarrow> bool \<times>
    manager" where
  "leaveVoiceChannel s g = (True, cleanupGuildResources s g)"

definition hasConnection :: "manager \<Rightarrow> guild_id \<Rightarrow> bool" where
  "hasConnection s g \<longleftrightarrow> connection_of s g \<noteq> None"

definition getPlayerStatus :: "manager \<Rightarrow> guild_id \<Rightarrow> player_status option"
    where
  "getPlayerStatus s g = map_option (\<lambda>pl. status_of (player_state pl)) (players s g)"

definition getCurrentStream :: "manager \<Rightarrow> guild_id \<Rightarrow> stream_info option"
    where
  "getCurrentStream s g = currentStreams s g"

definition shutdown :: "manager \<Rightarrow> manager" where
  "shutdown s =
     (let s1 = fold (\<lambda>g st. cleanupGuildResources st g) (map fst (connections s)) s
      in s1\<lparr>connections := [], players := Map.empty, currentStreams := Map.empty,
            ffmpegProcesses := Map.empty, volumes := Map.empty, guildSettings := Map.empty,
            connectionListeners := Map.empty, playerListeners := Map.empty\<rparr>)"

section \<open>The earlier manager (audioManager.js)\<close>

text \<open>
  The repository still holds the manager that the unified one replaces. Its volume,
  pause, resume, stop, play and leave operations are the ones above (up to log output, the
  transcoder's arguments and the station record). It differs where it keeps no listener
  bookkeeping, where \<^verbatim>\<open>joinVoiceChannel\<close> neither validates the target nor looks for a
  connection to reuse, and where \<^verbatim>\<open>shutdown\<close> leaves the volumes alone.
\<close>

definition legacy_cleanupGuildResources :: "manager \<Rightarrow> guild_id \<Rightarrow> manager"
    where
  "legacy_cleanupGuildResources s g =
     (let s1 = cleanupFFmpeg s g;
          s2 = (case existingConnection s1 g of None \<Rightarrow> s1 | Some c \<Rightarrow>
              conn_destroy c s1);
          s3 = delete_connection g s2;
          s4 = s3\<lparr>players := (players s3)(g := None)\<rparr>
      in s4\<lparr>currentStreams := (currentStreams s4)(g := None)\<rparr>)"

definition legacy_setupListeners :: "manager \<Rightarrow> guild_id \<Rightarrow> conn_ref
    \<Rightarrow> manager" where
  "legacy_setupListeners s g c =
     (let s1 = update_connection c
                 (\<lambda>vc. vc\<lparr>conn_handlers := conn_handlers vc @ [OnDisconnected,
                     OnDestroyed]\<rparr>) s
      in update_player g
           (\<lambda>pl. pl\<lparr>player_handlers :=
                    player_handlers pl @ [OnIdle, OnPlaying, OnPaused, OnError]\<rparr>) s1)"

definition legacy_joinVoiceChannel ::
  "manager \<Rightarrow> guild_id \<Rightarrow> channel_id \<Rightarrow> wait_outcome
     \<Rightarrow> (error + conn_ref \<times> player_ref) \<times> manager" where
  "legacy_joinVoiceChannel s g channelId w =
     (let s1 = legacy_cleanupGuildResources s g;
          (c, s2) = lib_joinVoiceChannel s1 g channelId;
          (player, s3) = createAudioPlayer s2;
          s4 = update_connection c (\<lambda>vc. vc\<lparr>conn_subscriber := Some (player_id
              player)\<rparr>) s3;
          s5 = set_connection g c s4;
          s6 = s5\<lparr>players := (players s5)(g \<mapsto> player)\<rparr>
      in case entersState_Ready s6 c CONNECTION_TIMEOUT w of
           (Inl e, s7) \<Rightarrow> (Inl e, legacy_cleanupGuildResources s7 g)
         | (Inr u, s7) \<Rightarrow> (Inr (c, player_id player), legacy_setupListeners s7 g c))"

definition legacy_shutdown :: "manager \<Rightarrow> manager" where
  "legacy_shutdown s =
     (let s1 = fold (\<lambda>g st. legacy_cleanupGuildResources st g) (map fst (connections s)) s
      in s1\<lparr>connections := [], players := Map.empty, currentStreams := Map.empty,
            ffmpegProcesses := Map.empty\<rparr>)"

section \<open>Runs of the manager\<close>

text \<open>
  The specification speaks of one operation \<open>playStream\<close>; the code has two, for the two
  kinds of descriptor.
\<close>

datatype stream_request = RadioRequest url info | QuranRequest url string string info

fun request_url :: "stream_request \<Rightarrow> url" where
  "request_url (RadioRequest u stationInfo) = u"
| "request_url (QuranRequest u surahName reciterName metadata) = u"

definition playStream ::
  "manager \<Rightarrow> guild_id \<Rightarrow> stream_request \<Rightarrow> spawn_outcome
      \<Rightarrow> (error + bool) \<times> manager" where
  "playStream s g req sp =
     (case req of
        RadioRequest u stationInfo \<Rightarrow> playRadio s g u stationInfo sp
      | QuranRequest u surahName reciterName metadata \<Rightarrow>
          playQuran s g u surahName reciterName metadata sp)"

text \<open>
  Everything that can happen to a manager: the calls of its control surface, the events its
  listeners handle, a timer firing, and the platform's own moves (a process ending, a stream
  becoming readable, a connection changing its status, the clock).
\<close>

datatype action =
    Join guild_id channel_id guild wait_outcome
  | Leave guild_id
  | Play guild_id stream_request spawn_outcome
  | Pause guild_id
  | Resume guild_id
  | Stop guild_id
  | SetVolume guild_id jsnum
  | IncreaseVolume guild_id
  | DecreaseVolume guild_id
  | PlayerIdle guild_id
  | PlayerError guild_id
  | ConnectionDisconnected guild_id bool
  | ConnectionDestroyed guild_id
  | TimerFires timer_action spawn_outcome
  | ProcessExits proc_ref
  | StreamReadable guild_id
  | ConnectionStatus conn_ref conn_status
  | Tick nat
  | Shutdown

definition stream_readable :: "player_state \<Rightarrow> player_state" where
  "stream_readable st = (case st of BufferingState r \<Rightarrow> PlayingState r | _
      \<Rightarrow> st)"

text \<open>
  When a player turns idle its state drops the resource, and the idle handler runs if the
  manager has attached it.
\<close>

definition player_idle :: "manager \<Rightarrow> guild_id \<Rightarrow> manager" where
  "player_idle s g =
     (case players s g of
        None \<Rightarrow> s
      | Some pl \<Rightarrow>
          (let s1 = s\<lparr>players := (players s)(g \<mapsto> pl\<lparr>player_state :=
              IdleState\<rparr>)\<rparr>
           in if OnIdle \<in> set (player_handlers pl) then idleListener s1 g else s1))"

fun step :: "action \<Rightarrow> manager \<Rightarrow> manager" where
  "step (Join g channelId gd w) s = snd (joinVoiceChannel s g channelId gd w)"
| "step (Leave g) s = snd (leaveVoiceChannel s g)"
| "step (Play g req sp) s = snd (playStream s g req sp)"
| "step (Pause g) s = snd (pauseAudio s g)"
| "step (Resume g) s = snd (resumeAudio s g)"
| "step (Stop g) s = snd (stopAudio s g)"
| "step (SetVolume g v) s = snd (setVolume s g v)"
| "step (IncreaseVolume g) s = snd (increaseVolume s g)"
| "step (DecreaseVolume g) s = snd (decreaseVolume s g)"
| "step (PlayerIdle g) s = player_idle s g"
| "step (PlayerError g) s = errorListener s g"
| "step (ConnectionDisconnected g recovers) s = disconnectedListener s g recovers"
| "step (ConnectionDestroyed g) s = destroyedListener s g"
| "step (TimerFires a sp) s = fire a sp s"
| "step (ProcessExits p) s =
     s\<lparr>processes := (processes s)(p := (processes s p)\<lparr>proc_exited :=
         True\<rparr>)\<rparr>"
| "step (StreamReadable g) s =
     update_player g (\<lambda>pl. pl\<lparr>player_state := stream_readable (player_state
         pl)\<rparr>) s"
| "step (ConnectionStatus c st) s = update_connection c (\<lambda>vc. vc\<lparr>conn_status :=
    st\<rparr>) s"
| "step (Tick n) s = s\<lparr>now := now s + n\<rparr>"
| "step Shutdown s = shutdown s"

definition run :: "action list \<Rightarrow> manager \<Rightarrow> manager" where
  "run acts s = fold step acts s"

section \<open>Properties of states\<close>

text \<open>What \<^verbatim>\<open>setVolume\<close> can have stored: a number from 0 to 2, or NaN.\<close>

definition volume_valid :: "jsnum \<Rightarrow> bool" where
  "volume_valid v \<longleftrightarrow> v = NaN \<or> (js_le MIN_VOLUME v \<and> js_le v
      MAX_VOLUME)"



text \<open>Nothing of a session is left for the guild.\<close>

definition no_session :: "manager \<Rightarrow> guild_id \<Rightarrow> bool" where
  "no_session s g \<longleftrightarrow>
     \<not> hasConnection s g \<and> players s g = None \<and> currentStreams s g = None
     \<and> ffmpegProcesses s g = None \<and> connectionListeners s g = None
     \<and> playerListeners s g = None"

text \<open>A pending timer that will restart a radio stream.\<close>

definition is_restart :: "timer \<Rightarrow> bool" where
  "is_restart t = (case snd t of RestartRadio g \<Rightarrow> True | _ \<Rightarrow> False)"

text \<open>The volume applied to the resource the guild's player holds.\<close>

definition resource_volume :: "manager \<Rightarrow> guild_id \<Rightarrow> jsnum option" where
  "resource_volume s g =
     (case players s g of
        None \<Rightarrow> None
      | Some pl \<Rightarrow> (case resource_of (player_state pl) of None \<Rightarrow> None |
          Some r \<Rightarrow> res_volume r))"

section \<open>Example runs\<close>

text \<open>
  A guild with one voice channel in which the bot may connect and speak, and a second
  channel in which it may not speak.
\<close>

definition example_guild :: guild where
  "example_guild =
     \<lparr>guild_channels =
        [''voice'' \<mapsto> \<lparr>channel_type = 2, permissionsFor = Some {Connect,
            Speak}\<rparr>,
         ''other'' \<mapsto> \<lparr>channel_type = 2, permissionsFor = Some {Connect,
             Speak}\<rparr>,
         ''muted'' \<mapsto> \<lparr>channel_type = 2, permissionsFor = Some {Connect,
             ViewChannel}\<rparr>,
         ''text'' \<mapsto> \<lparr>channel_type = 0, permissionsFor = Some {Connect,
             Speak}\<rparr>]\<rparr>"

text \<open>The same guild once the bot may no longer speak in its voice channel.\<close>

definition revoked_guild :: guild where
  "revoked_guild =
     \<lparr>guild_channels =
        [''voice'' \<mapsto> \<lparr>channel_type = 2, permissionsFor = Some {Connect,
            ViewChannel}\<rparr>]\<rparr>"

text \<open>The guild has joined its voice channel.\<close>

definition joined :: manager where
  "joined = run [Join ''guild'' ''voice'' example_guild ReachesReady] initial"

text \<open>The same, with the earlier manager.\<close>

definition legacy_joined :: manager where
  "legacy_joined = snd (legacy_joinVoiceChannel initial ''guild'' ''voice'' ReachesReady)"

text \<open>The guild plays a radio station, and the stream has become readable.\<close>

definition streaming :: manager where
  "streaming =
     run [Join ''guild'' ''voice'' example_guild ReachesReady,
          Play ''guild'' (RadioRequest ''http://radio.example/live'' [(''name'', ''radio'')])
              Spawns,
          StreamReadable ''guild''] initial"

text \<open>The guild plays a recitation.\<close>

definition reciting :: manager where
  "reciting =
     run [Join ''guild'' ''voice'' example_guild ReachesReady,
          Play ''guild'' (QuranRequest ''http://quran.example/001.mp3'' ''Al-Fatiha'' ''reciter''
              [])
            Spawns,
          StreamReadable ''guild''] initial"






text \<open>The guild has joined and has chosen the volume one half.\<close>

definition tuned :: manager where
  "tuned = run [Join ''guild'' ''voice'' example_guild ReachesReady,
                SetVolume ''guild'' (Fin (1 / 2))] initial"

section \<open>Rounding\<close>

lemma round_half_even_le: "x \<le> of_int N \<Longrightarrow> round_half_even x \<le> N"
  unfolding round_half_even_def Let_def
  by (auto simp: floor_le_iff)

lemma round_half_even_ge: "of_int N \<le> x \<Longrightarrow> N \<le> round_half_even x"
  unfolding round_half_even_def Let_def
  by (auto simp: le_floor_iff) linarith

lemma binade_le:
  assumes "x \<noteq> 0"
  shows "2 powi (binade x) \<le> \<bar>x\<bar>"
proof -
  obtain p q where pq: "quotient_of \<bar>x\<bar> = (p, q)"
    by (cases "quotient_of \<bar>x\<bar>")
  have q: "0 < q"
    using pq quotient_of_denom_pos by blast
  have x: "\<bar>x\<bar> = of_int p / of_int q"
    using pq quotient_of_div by blast
  have p: "0 < p"
  proof (rule ccontr)
    assume "\<not> 0 < p"
    then have "of_int p / (of_int q :: rat) \<le> 0"
      using q by (simp add: divide_nonpos_pos)
    with x assms show False by simp
  qed
  have lo: "2 ^ nat (bitlen p - 1) \<le> p"
    using bitlen_bounds[OF p] by simp
  have hi: "q < 2 ^ nat (bitlen q)"
    using bitlen_bounds[OF q] by simp
  have bp: "1 \<le> bitlen p"
    using p by (simp add: bitlen_alt_def)
  have bq: "0 \<le> bitlen q"
    by (rule bitlen_nonneg)
  have e1: "(2::rat) powi (bitlen p - bitlen q - 1) = 2 ^ nat (bitlen p - 1) / 2 ^ nat (bitlen q)"
  proof -
    have "(2::rat) powi (bitlen p - bitlen q - 1) = 2 powi ((bitlen p - 1) - bitlen q)"
      by (simp add: algebra_simps)
    also have "\<dots> = 2 powi (bitlen p - 1) / 2 powi (bitlen q)"
      by (rule power_int_diff) simp
    also have "\<dots> = 2 ^ nat (bitlen p - 1) / 2 ^ nat (bitlen q)"
      using bp bq by (simp add: power_int_def)
    finally show ?thesis .
  qed
  have lo': "(2::rat) ^ nat (bitlen p - 1) \<le> of_int p"
    using lo by (metis of_int_le_iff of_int_numeral of_int_power)
  have hi': "of_int q \<le> (2::rat) ^ nat (bitlen q)"
    using hi by (metis less_imp_le of_int_le_iff of_int_numeral of_int_power)
  have "(2::rat) ^ nat (bitlen p - 1) / 2 ^ nat (bitlen q) \<le> of_int p / of_int q"
    using lo' hi' q p by (intro frac_le) simp_all
  then have "2 powi (bitlen p - bitlen q - 1) \<le> \<bar>x\<bar>"
    using e1 x by simp
  then show ?thesis
    unfolding binade_def pq by (simp add: Let_def)
qed

text \<open>Rounding keeps the sign: a sum that is not negative does not round below zero.\<close>

lemma round_double_nonneg:
  assumes "0 \<le> x"
  shows "round_double x = PosInf \<or> (\<exists>r. 0 \<le> r \<and> round_double x = Fin r)"
proof -
  have "0 \<le> round_half_even (x / q)" if "0 < q" for q
    using round_half_even_ge[of 0 "x / q"] assms that by simp
  then show ?thesis
    using assms unfolding round_double_def Let_def
    by (auto simp: zero_less_power_int)
qed

lemma binade_le_1:
  assumes "0 < x" "x \<le> 2"
  shows "binade x \<le> 1"
proof (rule ccontr)
  assume "\<not> binade x \<le> 1"
  then have "2 \<le> binade x" by simp
  then have "(2::rat) powi 2 \<le> 2 powi binade x"
    by (intro power_int_increasing) simp_all
  also have "\<dots> \<le> \<bar>x\<bar>"
    using binade_le[of x] assms by simp
  finally show False
    using assms by simp
qed

text \<open>Rounding does not cross the double 2: what is at most 2 rounds to at most 2.\<close>

lemma round_double_le_2:
  assumes "x \<le> 2"
  shows "round_double x = NegInf \<or> (\<exists>r. r \<le> 2 \<and> round_double x = Fin r)"
proof (cases "0 < x")
  case False
  have "round_half_even (x / q) \<le> 0" if "0 < q" for q
    using round_half_even_le[of "x / q" 0] False that by (simp add: divide_nonpos_pos)
  then have "of_int (round_half_even (x / q)) * q \<le> 0" if "0 < q" for q
    using that by (simp add: mult_nonpos_nonneg)
  from this[of "2 powi k" for k]
  have "of_int (round_half_even (x / 2 powi k)) * 2 powi k \<le> (2::rat)" for k
    by (simp add: zero_less_power_int order_trans[of _ 0 2])
  then show ?thesis
    using False unfolding round_double_def Let_def by auto
next
  case True
  define e where "e = max (binade x) (- 1022)"
  define q :: rat where "q = 2 powi (e - 52)"
  define r where "r = of_int (round_half_even (x / q)) * q"
  have e: "e \<le> 1"
    using binade_le_1[OF True assms] by (simp add: e_def)
  have q: "0 < q"
    by (simp add: q_def zero_less_power_int)
  have N: "2 / q = of_int (2 ^ nat (53 - e))"
  proof -
    have "2 / q = (2::rat) powi 1 / 2 powi (e - 52)"
      by (simp add: q_def)
    also have "\<dots> = 2 powi (1 - (e - 52))"
      by (rule power_int_diff[symmetric]) simp
    also have "\<dots> = 2 ^ nat (53 - e)"
      using e by (simp add: power_int_def)
    finally show ?thesis by simp
  qed
  have "x / q \<le> 2 / q"
    using assms q by (simp add: divide_right_mono)
  then have "round_half_even (x / q) \<le> 2 ^ nat (53 - e)"
    using N round_half_even_le by simp
  then have "of_int (round_half_even (x / q)) \<le> 2 / q"
    using N by (metis of_int_le_iff)
  then have r2: "r \<le> 2"
    using q by (simp add: r_def pos_le_divide_eq)
  have "0 \<le> round_half_even (x / q)"
    using round_half_even_ge[of 0 "x / q"] True q by simp
  then have r0: "0 \<le> r"
    using q by (simp add: r_def)
  have "\<not> 2 powi 1024 \<le> \<bar>r\<bar>"
    using r0 r2 by (simp add: power_int_def)
  then have "round_double x = Fin r"
    using True unfolding round_double_def Let_def r_def q_def e_def by simp
  then show ?thesis
    using r2 by blast
qed

lemma step_value: "round_double (1 / 10) = VOLUME_STEP"
  unfolding VOLUME_STEP_def by code_simp

section \<open>Volume\<close>

lemma clamp_valid: "volume_valid (Math_max MIN_VOLUME (Math_min MAX_VOLUME v))"
  by (cases v) (auto simp: volume_valid_def Math_max_def Math_min_def MIN_VOLUME_def MAX_VOLUME_def)

lemma clamp_in_range:
  "v \<noteq> NaN \<Longrightarrow> js_le MIN_VOLUME (Math_max MIN_VOLUME (Math_min MAX_VOLUME v))
     \<and> js_le (Math_max MIN_VOLUME (Math_min MAX_VOLUME v)) MAX_VOLUME"
  by (cases v) (auto simp: Math_max_def Math_min_def MIN_VOLUME_def MAX_VOLUME_def)

lemma volumes_update_player [simp]: "volumes (update_player g f s) = volumes s"
  by (simp add: update_player_def split: option.splits)

lemma volumes_setVolume:
  "volumes (snd (setVolume s g v)) = (volumes s)(g \<mapsto> Math_max MIN_VOLUME (Math_min
      MAX_VOLUME v))"
  by (simp add: setVolume_def Let_def)

lemma fst_setVolume [simp]: "fst (setVolume s g v) = True"
  by (simp add: setVolume_def Let_def)

lemma getVolume_setVolume:
  "getVolume (snd (setVolume s g v)) g = Math_max MIN_VOLUME (Math_min MAX_VOLUME v)"
  by (simp add: getVolume_def volumes_setVolume)

lemma clamp_add:
  assumes "volume_valid v"
  shows "Math_max MIN_VOLUME (Math_min MAX_VOLUME (js_add v VOLUME_STEP))
         = Math_min (js_add v VOLUME_STEP) MAX_VOLUME"
proof (cases v)
  case (Fin c)
  with assms have c: "0 \<le> c"
    by (simp add: volume_valid_def MIN_VOLUME_def)
  have "0 \<le> c + 3602879701896397 / 36028797018963968"
    using c by simp
  from round_double_nonneg[OF this] show ?thesis
    using Fin by (auto simp: VOLUME_STEP_def Math_max_def Math_min_def MIN_VOLUME_def
        MAX_VOLUME_def)
qed (use assms in \<open>auto simp: volume_valid_def VOLUME_STEP_def Math_max_def Math_min_def
       MIN_VOLUME_def MAX_VOLUME_def\<close>)

lemma clamp_sub:
  assumes "volume_valid v"
  shows "Math_max MIN_VOLUME (Math_min MAX_VOLUME (js_sub v VOLUME_STEP))
         = Math_max (js_sub v VOLUME_STEP) MIN_VOLUME"
proof (cases v)
  case (Fin c)
  with assms have c: "c \<le> 2"
    by (simp add: volume_valid_def MAX_VOLUME_def)
  have "c - 3602879701896397 / 36028797018963968 \<le> 2"
    using c by simp
  from round_double_le_2[OF this] show ?thesis
    using Fin by (auto simp: VOLUME_STEP_def Math_max_def Math_min_def MIN_VOLUME_def
        MAX_VOLUME_def)
qed (use assms in \<open>auto simp: volume_valid_def VOLUME_STEP_def Math_max_def Math_min_def
       MIN_VOLUME_def MAX_VOLUME_def\<close>)

lemma add_at_max: "Math_min (js_add MAX_VOLUME VOLUME_STEP) MAX_VOLUME = MAX_VOLUME"
  unfolding VOLUME_STEP_def MAX_VOLUME_def by code_simp

lemma sub_at_min: "Math_max (js_sub MIN_VOLUME VOLUME_STEP) MIN_VOLUME = MIN_VOLUME"
  unfolding VOLUME_STEP_def MIN_VOLUME_def by code_simp

lemma add_default: "js_add (Fin 1) VOLUME_STEP = Fin (2476979795053773 / 2251799813685248)"
  unfolding VOLUME_STEP_def by code_simp

lemma sub_default: "js_sub (Fin 1) VOLUME_STEP = Fin (8106479329266893 / 9007199254740992)"
  unfolding VOLUME_STEP_def by code_simp

text \<open>
  For every number but NaN, \<^verbatim>\<open>setVolume\<close> stores a value from 0 to 2, with or without a
  player: 3.5 is stored as 2 and -1 as 0.
\<close>

lemma setVolume_clamps:
  assumes "v \<noteq> NaN"
  shows "fst (setVolume s g v)
    \<and> volumes (snd (setVolume s g v)) g = Some (Math_max MIN_VOLUME (Math_min MAX_VOLUME v))
    \<and> js_le (Fin 0) (getVolume (snd (setVolume s g v)) g)
    \<and> js_le (getVolume (snd (setVolume s g v)) g) (Fin 2)"
  using clamp_in_range[OF assms]
  by (simp add: volumes_setVolume getVolume_setVolume MIN_VOLUME_def MAX_VOLUME_def)

lemma setVolume_boundaries:
  "volumes (snd (setVolume s g (Fin (7 / 2)))) g = Some (Fin 2)
   \<and> volumes (snd (setVolume s g (Fin (- 1)))) g = Some (Fin 0)
   \<and> volumes (snd (setVolume s g PosInf)) g = Some (Fin 2)
   \<and> volumes (snd (setVolume s g NegInf)) g = Some (Fin 0)"
  by (simp add: volumes_setVolume Math_max_def Math_min_def MIN_VOLUME_def MAX_VOLUME_def)

text \<open>
  Claim C6. \<^verbatim>\<open>setVolume\<close> is to clamp every numeric input into the range from 0 to 2
  before it records it. For the number NaN it does not: \<^verbatim>\<open>Math.min\<close> and \<^verbatim>\<open>Math.max\<close>
  hand NaN through, so NaN is what the volume map holds afterwards and what \<^verbatim>\<open>getVolume\<close>
  returns, a value that is neither at least 0 nor at most 2.
\<close>

theorem setVolume_NaN_stored:
  "fst (setVolume initial ''guild'' NaN)
   \<and> volumes (snd (setVolume initial ''guild'' NaN)) ''guild'' = Some NaN
   \<and> getVolume (snd (setVolume initial ''guild'' NaN)) ''guild'' = NaN
   \<and> \<not> js_le MIN_VOLUME (getVolume (snd (setVolume initial ''guild'' NaN)) ''guild'')
   \<and> \<not> js_le (getVolume (snd (setVolume initial ''guild'' NaN)) ''guild'') MAX_VOLUME"
  by (simp add: volumes_setVolume getVolume_setVolume Math_max_def Math_min_def
      MIN_VOLUME_def MAX_VOLUME_def)

section \<open>Evaluating runs\<close>

lemmas model_defs = run_def joinVoiceChannel_def join_try_def validateChannel_def
  existingConnection_def connection_of_def getVoiceConnection_def replaceConnection_def
  openConnection_def
  reuseConnection_def cleanupGuildResources_def cleanupFFmpeg_def cleanupEventListeners_def
  conn_destroy_def delete_connection_def set_connection_def lib_joinVoiceChannel_def
  createAudioPlayer_def update_connection_def update_player_def entersState_Ready_def
  setupConnectionListeners_def setupPlayerListeners_def playStream_def playRadio_def
  playQuran_def startStream_def stopCurrentPlayback_def createFFmpegStream_def
  createAudioResource_def resource_setVolume_def getVolume_def player_play_def player_stop_def
  request_stop_def stream_readable_def sameChannelHealthy_def connection_off_def player_off_def
  proc_kill_def initial_def example_guild_def Let_def spawn_throws_def ffmpeg_args_def

lemma status_joined: "getPlayerStatus joined ''guild'' = Some Idle"
  by (simp add: joined_def getPlayerStatus_def model_defs)

lemma status_streaming: "getPlayerStatus streaming ''guild'' = Some Playing"
  by (simp add: streaming_def getPlayerStatus_def model_defs)

lemma player_streaming:
  "players streaming ''guild'' =
     Some \<lparr>player_id = 0,
           player_state = PlayingState \<lparr>res_input = 0, res_volume = Some (Fin 1),
                                         res_silence_remaining = - 1\<rparr>,
           player_handlers = [OnIdle, OnPlaying, OnPaused, OnError]\<rparr>"
  by (simp add: streaming_def model_defs DEFAULT_VOLUME_def)

lemma stream_streaming:
  "currentStreams streaming ''guild''
     = Some (RadioStream ''http://radio.example/live'' [(''name'', ''radio'')] 0)"
  by (simp add: streaming_def model_defs)

lemma ffmpeg_streaming: "ffmpegProcesses streaming ''guild'' = Some 0"
  by (simp add: streaming_def model_defs)

section \<open>Pause, resume, stop\<close>

lemma pauseAudio_cases:
  "pauseAudio s g =
     (case players s g of
        None \<Rightarrow> (False, s)
      | Some pl \<Rightarrow>
          (case player_state pl of
             PlayingState r \<Rightarrow>
               (True, s\<lparr>players := (players s)(g \<mapsto> pl\<lparr>player_state :=
                   PausedState r\<rparr>)\<rparr>)
           | _ \<Rightarrow> (False, s)))"
  by (auto simp: pauseAudio_def isPlayerReady_def update_player_def
      split: option.splits player_state.splits)

lemma resumeAudio_cases:
  "resumeAudio s g =
     (case players s g of
        None \<Rightarrow> (False, s)
      | Some pl \<Rightarrow>
          (case player_state pl of
             PausedState r \<Rightarrow>
               (True, s\<lparr>players := (players s)(g \<mapsto> pl\<lparr>player_state :=
                   PlayingState r\<rparr>)\<rparr>)
           | _ \<Rightarrow> (False, s)))"
  by (auto simp: resumeAudio_def isPlayerReady_def update_player_def
      split: option.splits player_state.splits)

lemma stopAudio_cases:
  "stopAudio s g =
     (case players s g of
        None \<Rightarrow> (False, s)
      | Some pl \<Rightarrow>
          (case player_state pl of
             PlayingState r \<Rightarrow> (True, stopCurrentPlayback s g)
           | PausedState r \<Rightarrow> (True, stopCurrentPlayback s g)
           | _ \<Rightarrow> (False, s)))"
  by (auto simp: stopAudio_def Let_def split: option.splits player_state.splits)

lemma players_cleanupFFmpeg [simp]: "players (cleanupFFmpeg s g) = players s"
  by (simp add: cleanupFFmpeg_def Let_def split: option.splits)

lemma currentStreams_cleanupFFmpeg [simp]: "currentStreams (cleanupFFmpeg s g) = currentStreams s"
  by (simp add: cleanupFFmpeg_def Let_def split: option.splits)

lemma ffmpegProcesses_cleanupFFmpeg [simp]:
  "ffmpegProcesses (cleanupFFmpeg s g) = (ffmpegProcesses s)(g := None)"
  by (simp add: cleanupFFmpeg_def Let_def split: option.splits)

lemma cleanupFFmpeg_not_live:
  "ffmpegProcesses s g = Some p \<Longrightarrow> \<not> proc_unsignalled (processes
      (cleanupFFmpeg s g) p)"
  by (simp add: cleanupFFmpeg_def Let_def proc_unsignalled_def proc_kill_def)

lemma stopCurrentPlayback_effect:
  "currentStreams (stopCurrentPlayback s g) g = None
   \<and> ffmpegProcesses (stopCurrentPlayback s g) g = None
   \<and> players (stopCurrentPlayback s g) g
       = map_option (\<lambda>pl. pl\<lparr>player_state := player_stop (player_state pl)\<rparr>)
           (players s g)"
  by (simp add: stopCurrentPlayback_def Let_def update_player_def split: option.splits)

text \<open>
  Claim C5. \<^verbatim>\<open>pauseAudio\<close> answers true exactly when the guild's player is playing, and
  then the player is paused; \<^verbatim>\<open>resumeAudio\<close> answers true exactly when it is paused, and
  then it plays again; \<^verbatim>\<open>stopAudio\<close> answers true exactly when it is playing or paused,
  and then the current playback is stopped: the stream entry and the process entry are
  gone, the process is no longer live, and the player's resource has been told to stop.
  In every other case, also without a player, the answer is false and the state is the
  one before. Each operation is a total function to a boolean and a state: none throws.
\<close>

theorem playback_controls_guarded:
  "(fst (pauseAudio s g) \<longleftrightarrow> getPlayerStatus s g = Some Playing)
   \<and> (fst (pauseAudio s g) \<longrightarrow>
        getPlayerStatus (snd (pauseAudio s g)) g = Some Paused
        \<and> snd (pauseAudio s g)
            = update_player g (\<lambda>pl. pl\<lparr>player_state := player_pause (player_state
                pl)\<rparr>) s)
   \<and> (\<not> fst (pauseAudio s g) \<longrightarrow> snd (pauseAudio s g) = s)
   \<and> (fst (resumeAudio s g) \<longleftrightarrow> getPlayerStatus s g = Some Paused)
   \<and> (fst (resumeAudio s g) \<longrightarrow>
        getPlayerStatus (snd (resumeAudio s g)) g = Some Playing
        \<and> snd (resumeAudio s g)
            = update_player g (\<lambda>pl. pl\<lparr>player_state := player_unpause (player_state
                pl)\<rparr>) s)
   \<and> (\<not> fst (resumeAudio s g) \<longrightarrow> snd (resumeAudio s g) = s)
   \<and> (fst (stopAudio s g) \<longleftrightarrow>
        getPlayerStatus s g = Some Playing \<or> getPlayerStatus s g = Some Paused)
   \<and> (fst (stopAudio s g) \<longrightarrow>
        snd (stopAudio s g) = stopCurrentPlayback s g
        \<and> currentStreams (snd (stopAudio s g)) g = None
        \<and> ffmpegProcesses (snd (stopAudio s g)) g = None
        \<and> (\<forall>p. ffmpegProcesses s g = Some p \<longrightarrow> \<not> proc_unsignalled
            (processes (snd (stopAudio s g)) p))
        \<and> (\<exists>pl r. players (snd (stopAudio s g)) g = Some pl
              \<and> resource_of (player_state pl) = Some r \<and> res_silence_remaining r
                  \<noteq> - 1))
   \<and> (\<not> fst (stopAudio s g) \<longrightarrow> snd (stopAudio s g) = s)"
proof -
  have pause: "(fst (pauseAudio s g) \<longleftrightarrow> getPlayerStatus s g = Some Playing)
   \<and> (fst (pauseAudio s g) \<longrightarrow>
        getPlayerStatus (snd (pauseAudio s g)) g = Some Paused
        \<and> snd (pauseAudio s g)
            = update_player g (\<lambda>pl. pl\<lparr>player_state := player_pause (player_state
                pl)\<rparr>) s)
   \<and> (\<not> fst (pauseAudio s g) \<longrightarrow> snd (pauseAudio s g) = s)"
    by (auto simp: pauseAudio_cases getPlayerStatus_def update_player_def
        split: option.splits player_state.splits)
  have resume: "(fst (resumeAudio s g) \<longleftrightarrow> getPlayerStatus s g = Some Paused)
   \<and> (fst (resumeAudio s g) \<longrightarrow>
        getPlayerStatus (snd (resumeAudio s g)) g = Some Playing
        \<and> snd (resumeAudio s g)
            = update_player g (\<lambda>pl. pl\<lparr>player_state := player_unpause (player_state
                pl)\<rparr>) s)
   \<and> (\<not> fst (resumeAudio s g) \<longrightarrow> snd (resumeAudio s g) = s)"
    by (auto simp: resumeAudio_cases getPlayerStatus_def update_player_def
        split: option.splits player_state.splits)
  have stop1: "fst (stopAudio s g) \<longleftrightarrow>
        getPlayerStatus s g = Some Playing \<or> getPlayerStatus s g = Some Paused"
    by (auto simp: stopAudio_cases getPlayerStatus_def split: option.splits player_state.splits)
  have stop2: "\<not> fst (stopAudio s g) \<longrightarrow> snd (stopAudio s g) = s"
    by (auto simp: stopAudio_cases split: option.splits player_state.splits)
  have stop3: "snd (stopAudio s g) = stopCurrentPlayback s g" if "fst (stopAudio s g)"
    using that by (auto simp: stopAudio_cases split: option.splits player_state.splits)
  have stop4: "\<exists>pl r. players (stopCurrentPlayback s g) g = Some pl
              \<and> resource_of (player_state pl) = Some r \<and> res_silence_remaining r
                  \<noteq> - 1"
    if "fst (stopAudio s g)"
    using that
    by (auto simp: stopAudio_cases stopCurrentPlayback_effect player_stop_def request_stop_def
        silencePaddingFrames_def split: option.splits player_state.splits)
  have stop5: "\<not> proc_unsignalled (processes (stopCurrentPlayback s g) p)"
    if "ffmpegProcesses s g = Some p" for p
    using that cleanupFFmpeg_not_live[of _ g p]
    by (simp add: stopCurrentPlayback_def Let_def update_player_def split: option.splits)
  have stop: "fst (stopAudio s g) \<longrightarrow>
        snd (stopAudio s g) = stopCurrentPlayback s g
        \<and> currentStreams (snd (stopAudio s g)) g = None
        \<and> ffmpegProcesses (snd (stopAudio s g)) g = None
        \<and> (\<forall>p. ffmpegProcesses s g = Some p \<longrightarrow> \<not> proc_unsignalled
            (processes (snd (stopAudio s g)) p))
        \<and> (\<exists>pl r. players (snd (stopAudio s g)) g = Some pl
              \<and> resource_of (player_state pl) = Some r \<and> res_silence_remaining r
                  \<noteq> - 1)"
  proof
    assume a: "fst (stopAudio s g)"
    show "snd (stopAudio s g) = stopCurrentPlayback s g
        \<and> currentStreams (snd (stopAudio s g)) g = None
        \<and> ffmpegProcesses (snd (stopAudio s g)) g = None
        \<and> (\<forall>p. ffmpegProcesses s g = Some p \<longrightarrow> \<not> proc_unsignalled
            (processes (snd (stopAudio s g)) p))
        \<and> (\<exists>pl r. players (snd (stopAudio s g)) g = Some pl
              \<and> resource_of (player_state pl) = Some r \<and> res_silence_remaining r
                  \<noteq> - 1)"
      unfolding stop3[OF a] using stop4[OF a] stop5 by (simp add: stopCurrentPlayback_effect)
  qed
  from pause resume stop1 stop2 stop show ?thesis
    by blast
qed

theorem playback_controls_guarded_witness:
  "getPlayerStatus streaming ''guild'' = Some Playing
   \<and> fst (pauseAudio streaming ''guild'')
   \<and> getPlayerStatus (snd (pauseAudio streaming ''guild'')) ''guild'' = Some Paused
   \<and> \<not> fst (resumeAudio streaming ''guild'')
   \<and> snd (resumeAudio streaming ''guild'') = streaming
   \<and> fst (resumeAudio (snd (pauseAudio streaming ''guild'')) ''guild'')
   \<and> \<not> fst (pauseAudio (snd (pauseAudio streaming ''guild'')) ''guild'')
   \<and> fst (stopAudio streaming ''guild'')
   \<and> currentStreams (snd (stopAudio streaming ''guild'')) ''guild'' = None
   \<and> ffmpegProcesses (snd (stopAudio streaming ''guild'')) ''guild'' = None
   \<and> \<not> proc_unsignalled (processes (snd (stopAudio streaming ''guild'')) 0)
   \<and> fst (stopAudio (snd (pauseAudio streaming ''guild'')) ''guild'')
   \<and> getPlayerStatus joined ''guild'' = Some Idle
   \<and> \<not> fst (pauseAudio joined ''guild'') \<and> snd (pauseAudio joined ''guild'') = joined
   \<and> \<not> fst (resumeAudio joined ''guild'') \<and> snd (resumeAudio joined ''guild'') =
       joined
   \<and> \<not> fst (stopAudio joined ''guild'') \<and> snd (stopAudio joined ''guild'') = joined
   \<and> getPlayerStatus initial ''guild'' = None
   \<and> \<not> fst (pauseAudio initial ''guild'') \<and> snd (pauseAudio initial ''guild'') =
       initial
   \<and> \<not> fst (resumeAudio initial ''guild'') \<and> snd (resumeAudio initial ''guild'') =
       initial
   \<and> \<not> fst (stopAudio initial ''guild'') \<and> snd (stopAudio initial ''guild'') =
       initial"
proof -
  have none: "getPlayerStatus initial ''guild'' = None"
    by (simp add: getPlayerStatus_def initial_def)
  note playing = playback_controls_guarded[of streaming "''guild''"]
  note paused = playback_controls_guarded[of "snd (pauseAudio streaming ''guild'')" "''guild''"]
  note idle = playback_controls_guarded[of joined "''guild''"]
  note absent = playback_controls_guarded[of initial "''guild''"]
  have not_paused: "getPlayerStatus streaming ''guild'' \<noteq> Some Paused"
    by (simp add: status_streaming)
  have a: "fst (pauseAudio streaming ''guild'')
      \<and> getPlayerStatus (snd (pauseAudio streaming ''guild'')) ''guild'' = Some Paused
      \<and> \<not> fst (resumeAudio streaming ''guild'')
      \<and> snd (resumeAudio streaming ''guild'') = streaming
      \<and> fst (stopAudio streaming ''guild'')
      \<and> currentStreams (snd (stopAudio streaming ''guild'')) ''guild'' = None
      \<and> ffmpegProcesses (snd (stopAudio streaming ''guild'')) ''guild'' = None
      \<and> \<not> proc_unsignalled (processes (snd (stopAudio streaming ''guild'')) 0)"
    using playing status_streaming not_paused ffmpeg_streaming by blast
  then have not_playing:
    "getPlayerStatus (snd (pauseAudio streaming ''guild'')) ''guild'' \<noteq> Some Playing"
    by simp
  have b: "fst (resumeAudio (snd (pauseAudio streaming ''guild'')) ''guild'')
      \<and> \<not> fst (pauseAudio (snd (pauseAudio streaming ''guild'')) ''guild'')
      \<and> fst (stopAudio (snd (pauseAudio streaming ''guild'')) ''guild'')"
    using paused a not_playing by blast
  have not_active: "getPlayerStatus joined ''guild'' \<noteq> Some Playing"
    "getPlayerStatus joined ''guild'' \<noteq> Some Paused"
    by (simp_all add: status_joined)
  have c: "\<not> fst (pauseAudio joined ''guild'') \<and> snd (pauseAudio joined ''guild'') =
      joined
      \<and> \<not> fst (resumeAudio joined ''guild'') \<and> snd (resumeAudio joined ''guild'') =
          joined
      \<and> \<not> fst (stopAudio joined ''guild'') \<and> snd (stopAudio joined ''guild'') =
          joined"
    using idle not_active by blast
  have no_status: "getPlayerStatus initial ''guild'' \<noteq> Some Playing"
    "getPlayerStatus initial ''guild'' \<noteq> Some Paused"
    by (simp_all add: none)
  have d: "\<not> fst (pauseAudio initial ''guild'') \<and> snd (pauseAudio initial ''guild'') =
      initial
      \<and> \<not> fst (resumeAudio initial ''guild'') \<and> snd (resumeAudio initial ''guild'')
          = initial
      \<and> \<not> fst (stopAudio initial ''guild'') \<and> snd (stopAudio initial ''guild'') =
          initial"
    using absent no_status by blast
  show ?thesis
    using a b c d status_streaming status_joined none by blast
qed

text \<open>
  Claim C8. For a guild whose player is playing, \<^verbatim>\<open>pauseAudio\<close> followed at once by
  \<^verbatim>\<open>resumeAudio\<close> succeeds twice, leaves the player playing and the guild's stream
  descriptor as it was: the state after the two calls is the state before them.
\<close>

theorem pause_resume_roundtrip:
  assumes "players s g = Some pl" and "player_state pl = PlayingState r"
  shows "fst (pauseAudio s g)
    \<and> getPlayerStatus (snd (pauseAudio s g)) g = Some Paused
    \<and> fst (resumeAudio (snd (pauseAudio s g)) g)
    \<and> getPlayerStatus (snd (resumeAudio (snd (pauseAudio s g)) g)) g = Some Playing
    \<and> currentStreams (snd (resumeAudio (snd (pauseAudio s g)) g)) g = currentStreams s g
    \<and> snd (resumeAudio (snd (pauseAudio s g)) g) = s"
proof -
  have "pl\<lparr>player_state := PlayingState r\<rparr> = pl"
    using assms(2) by (cases pl) simp
  then have "(players s)(g \<mapsto> pl\<lparr>player_state := PlayingState r\<rparr>) = players s"
    using assms(1) by (simp add: fun_upd_idem)
  then show ?thesis
    using assms by (simp add: pauseAudio_cases resumeAudio_cases getPlayerStatus_def)
qed

theorem pause_resume_roundtrip_witness:
  "getPlayerStatus streaming ''guild'' = Some Playing
   \<and> currentStreams streaming ''guild''
       = Some (RadioStream ''http://radio.example/live'' [(''name'', ''radio'')] 0)
   \<and> fst (pauseAudio streaming ''guild'')
   \<and> getPlayerStatus (snd (pauseAudio streaming ''guild'')) ''guild'' = Some Paused
   \<and> fst (resumeAudio (snd (pauseAudio streaming ''guild'')) ''guild'')
   \<and> getPlayerStatus (snd (resumeAudio (snd (pauseAudio streaming ''guild'')) ''guild''))
       ''guild''
       = Some Playing
   \<and> currentStreams (snd (resumeAudio (snd (pauseAudio streaming ''guild'')) ''guild''))
       ''guild''
       = Some (RadioStream ''http://radio.example/live'' [(''name'', ''radio'')] 0)
   \<and> snd (resumeAudio (snd (pauseAudio streaming ''guild'')) ''guild'') = streaming"
  using pause_resume_roundtrip[OF player_streaming] status_streaming stream_streaming
  by simp

section \<open>The idle listener\<close>

lemma timers_cleanupFFmpeg_restart:
  "filter is_restart (timers (cleanupFFmpeg s g)) = filter is_restart (timers s)"
  by (simp add: cleanupFFmpeg_def Let_def is_restart_def split: option.splits)

lemma restartRadio_no_stream: "currentStreams s g = None \<Longrightarrow> restartRadio s g sp = s"
  by (simp add: restartRadio_def)

lemma startStream_descriptor:
  "players s g \<noteq> None \<Longrightarrow> \<not> spawn_throws sp (ffmpeg_args u)
     \<Longrightarrow> fst (startStream s g u d sp) = Inr True
     \<and> currentStreams (snd (startStream s g u d sp)) g = Some d
     \<and> ffmpegProcesses (snd (startStream s g u d sp)) g = Some (next_proc s)
     \<and> getPlayerStatus (snd (startStream s g u d sp)) g = Some Buffering"
  by (auto simp: startStream_def Let_def createFFmpegStream_def stopCurrentPlayback_def
      update_player_def cleanupFFmpeg_def getPlayerStatus_def player_play_def split: option.splits)

text \<open>
  When \<^verbatim>\<open>spawn\<close> throws, the play operation rethrows after it has stopped the playback:
  the guild keeps its player, but neither a stream entry nor a process entry.
\<close>

lemma startStream_spawn_failure:
  "players s g \<noteq> None \<Longrightarrow> spawn_throws sp (ffmpeg_args u)
     \<Longrightarrow> fst (startStream s g u d sp) = Inl SpawnFailed
     \<and> snd (startStream s g u d sp) = cleanupFFmpeg (stopCurrentPlayback s g) g
     \<and> currentStreams (snd (startStream s g u d sp)) g = None
     \<and> ffmpegProcesses (snd (startStream s g u d sp)) g = None
     \<and> next_proc (snd (startStream s g u d sp)) = next_proc s"
  by (auto simp: startStream_def Let_def createFFmpegStream_def stopCurrentPlayback_def
      update_player_def cleanupFFmpeg_def split: option.splits)

lemma stream_reciting:
  "currentStreams reciting ''guild''
     = Some (QuranStream ''http://quran.example/001.mp3'' ''Al-Fatiha'' ''reciter'' [] 0)"
  by (simp add: reciting_def model_defs)

lemma facts_reciting: "ffmpegProcesses reciting ''guild'' = Some 0 \<and> timers reciting = []"
  by (simp add: reciting_def model_defs)

lemma facts_streaming:
  "timers streaming = [] \<and> players streaming ''guild'' \<noteq> None \<and> now streaming = 0"
  by (simp add: streaming_def model_defs)

text \<open>
  Claim C4. When the idle listener of a guild runs (it does not ask whether a stop was
  requested): with a radio descriptor current it changes nothing but to schedule
  \<^verbatim>\<open>restartRadio\<close> after 1000 ms, and that timer, when it fires, plays the same URL with
  the same station record again (for a guild with a player the stream entry is the same
  station again when the transcoder can be spawned, and is gone when \<^verbatim>\<open>spawn\<close> throws);
  with a recitation current it clears the
  guild's stream entry, reclaims the process (entry removed, process signalled or ended),
  schedules no restart, and a restart timer that fires afterwards does nothing.
\<close>

theorem idle_restarts_radio_only:
  "(\<forall>u i t. currentStreams s g = Some (RadioStream u i t) \<longrightarrow>
      idleListener s g = s\<lparr>timers := timers s @ [(1000, RestartRadio g)]\<rparr>
      \<and> fire (RestartRadio g) sp (idleListener s g)
          = snd (playRadio (idleListener s g) g u i sp)
      \<and> (players s g \<noteq> None \<and> \<not> spawn_throws sp (ffmpeg_args u) \<longrightarrow>
           currentStreams (fire (RestartRadio g) sp (idleListener s g)) g
             = Some (RadioStream u i (now s)))
      \<and> (players s g \<noteq> None \<and> spawn_throws sp (ffmpeg_args u) \<longrightarrow>
           currentStreams (fire (RestartRadio g) sp (idleListener s g)) g = None))
   \<and> (\<forall>u sn rn m t. currentStreams s g = Some (QuranStream u sn rn m t) \<longrightarrow>
      currentStreams (idleListener s g) g = None
      \<and> ffmpegProcesses (idleListener s g) g = None
      \<and> (\<forall>p. ffmpegProcesses s g = Some p \<longrightarrow>
            \<not> proc_unsignalled (processes (idleListener s g) p))
      \<and> filter is_restart (timers (idleListener s g)) = filter is_restart (timers s)
      \<and> fire (RestartRadio g) sp (idleListener s g) = idleListener s g)"
proof (intro conjI allI impI)
  fix u i t
  assume a: "currentStreams s g = Some (RadioStream u i t)"
  show l: "idleListener s g = s\<lparr>timers := timers s @ [(1000, RestartRadio g)]\<rparr>"
    using a by (simp add: idleListener_def)
  show "fire (RestartRadio g) sp (idleListener s g) = snd (playRadio (idleListener s g) g u i sp)"
    using a by (simp add: l fire_def restartRadio_def)
  {
    assume "players s g \<noteq> None \<and> \<not> spawn_throws sp (ffmpeg_args u)"
    then show "currentStreams (fire (RestartRadio g) sp (idleListener s g)) g
        = Some (RadioStream u i (now s))"
      using a startStream_descriptor[of "s\<lparr>timers := timers s @ [(1000, RestartRadio g)]\<rparr>"
          g sp u]
      by (simp add: l fire_def restartRadio_def playRadio_def)
  }
  {
    assume h: "players s g \<noteq> None \<and> spawn_throws sp (ffmpeg_args u)"
    have "currentStreams (snd (startStream (s\<lparr>timers := timers s @ [(1000, RestartRadio g)]\<rparr>)
        g u (RadioStream u i (now s)) sp)) g = None"
      by (rule startStream_spawn_failure[THEN conjunct2, THEN conjunct2, THEN conjunct1])
         (use h in simp_all)
    then show "currentStreams (fire (RestartRadio g) sp (idleListener s g)) g = None"
      using a by (simp add: l fire_def restartRadio_def playRadio_def)
  }
next
  fix u sn rn m t
  assume a: "currentStreams s g = Some (QuranStream u sn rn m t)"
  have l: "idleListener s g
      = cleanupFFmpeg (s\<lparr>currentStreams := (currentStreams s)(g := None)\<rparr>) g"
    using a by (simp add: idleListener_def)
  show "currentStreams (idleListener s g) g = None"
    by (simp add: l)
  then show "fire (RestartRadio g) sp (idleListener s g) = idleListener s g"
    by (simp add: fire_def restartRadio_no_stream)
  show "ffmpegProcesses (idleListener s g) g = None"
    by (simp add: l)
  show "filter is_restart (timers (idleListener s g)) = filter is_restart (timers s)"
    by (simp add: l timers_cleanupFFmpeg_restart)
  fix p
  assume "ffmpegProcesses s g = Some p"
  then show "\<not> proc_unsignalled (processes (idleListener s g) p)"
    unfolding l by (intro cleanupFFmpeg_not_live) simp
qed

theorem idle_restarts_radio_only_witness:
  "currentStreams streaming ''guild''
     = Some (RadioStream ''http://radio.example/live'' [(''name'', ''radio'')] 0)
   \<and> timers (idleListener streaming ''guild'') = [(1000, RestartRadio ''guild'')]
   \<and> currentStreams (fire (RestartRadio ''guild'') Spawns (idleListener streaming ''guild''))
       ''guild''
       = Some (RadioStream ''http://radio.example/live'' [(''name'', ''radio'')] 0)
   \<and> currentStreams (fire (RestartRadio ''guild'') SpawnThrows (idleListener streaming ''guild''))
       ''guild'' = None
   \<and> currentStreams reciting ''guild''
       = Some (QuranStream ''http://quran.example/001.mp3'' ''Al-Fatiha'' ''reciter'' [] 0)
   \<and> currentStreams (idleListener reciting ''guild'') ''guild'' = None
   \<and> ffmpegProcesses (idleListener reciting ''guild'') ''guild'' = None
   \<and> \<not> proc_unsignalled (processes (idleListener reciting ''guild'') 0)
   \<and> filter is_restart (timers (idleListener reciting ''guild'')) = []
   \<and> fire (RestartRadio ''guild'') Spawns (idleListener reciting ''guild'')
       = idleListener reciting ''guild''"
proof -
  note radio = idle_restarts_radio_only[of streaming "''guild''" Spawns, THEN conjunct1,
      rule_format, OF stream_streaming]
  note refused = idle_restarts_radio_only[of streaming "''guild''" SpawnThrows, THEN conjunct1,
      rule_format, OF stream_streaming]
  note quran = idle_restarts_radio_only[of reciting "''guild''" Spawns, THEN conjunct2, rule_format,
      OF stream_reciting]
  have a: "timers (idleListener streaming ''guild'') = [(1000, RestartRadio ''guild'')]"
    using radio[THEN conjunct1] facts_streaming by simp
  have b: "currentStreams (fire (RestartRadio ''guild'') Spawns (idleListener streaming
      ''guild'')) ''guild''
       = Some (RadioStream ''http://radio.example/live'' [(''name'', ''radio'')] 0)"
    using radio[THEN conjunct2, THEN conjunct2, THEN conjunct1] facts_streaming
    by (simp add: spawn_throws_def ffmpeg_args_def)
  have b': "currentStreams (fire (RestartRadio ''guild'') SpawnThrows
      (idleListener streaming ''guild'')) ''guild'' = None"
    using refused[THEN conjunct2, THEN conjunct2, THEN conjunct2] facts_streaming
    by (simp add: spawn_throws_def)
  have c: "\<not> proc_unsignalled (processes (idleListener reciting ''guild'') 0)"
    using quran facts_reciting by blast
  have d: "filter is_restart (timers (idleListener reciting ''guild'')) = []"
    using quran[THEN conjunct2, THEN conjunct2, THEN conjunct2, THEN conjunct1] facts_reciting
    by simp
  show ?thesis
    using a b b' c d quran stream_streaming stream_reciting by blast
qed

section \<open>What the cleanup touches\<close>

lemma fold_connection_off [simp]:
  "connections (fold connection_off ls s) = connections s"
  "players (fold connection_off ls s) = players s"
  "currentStreams (fold connection_off ls s) = currentStreams s"
  "volumes (fold connection_off ls s) = volumes s"
  "ffmpegProcesses (fold connection_off ls s) = ffmpegProcesses s"
  "connectionListeners (fold connection_off ls s) = connectionListeners s"
  "playerListeners (fold connection_off ls s) = playerListeners s"
  "voice_registry (fold connection_off ls s) = voice_registry s"
  "processes (fold connection_off ls s) = processes s"
  "next_proc (fold connection_off ls s) = next_proc s"
  "next_conn (fold connection_off ls s) = next_conn s"
  "timers (fold connection_off ls s) = timers s"
  "conn_status (voice_connections (fold connection_off ls s) c) = conn_status (voice_connections s
      c)"
  "join_channel (voice_connections (fold connection_off ls s) c) = join_channel (voice_connections
      s c)"
  "conn_guild (voice_connections (fold connection_off ls s) c) = conn_guild (voice_connections s c)"
  by (induction ls arbitrary: s) (simp_all add: connection_off_def update_connection_def)

lemma fold_player_off [simp]:
  "connections (fold (player_off g) ls s) = connections s"
  "currentStreams (fold (player_off g) ls s) = currentStreams s"
  "volumes (fold (player_off g) ls s) = volumes s"
  "ffmpegProcesses (fold (player_off g) ls s) = ffmpegProcesses s"
  "connectionListeners (fold (player_off g) ls s) = connectionListeners s"
  "playerListeners (fold (player_off g) ls s) = playerListeners s"
  "voice_registry (fold (player_off g) ls s) = voice_registry s"
  "voice_connections (fold (player_off g) ls s) = voice_connections s"
  "processes (fold (player_off g) ls s) = processes s"
  "next_proc (fold (player_off g) ls s) = next_proc s"
  "next_conn (fold (player_off g) ls s) = next_conn s"
  "timers (fold (player_off g) ls s) = timers s"
  "g' \<noteq> g \<Longrightarrow> players (fold (player_off g) ls s) g' = players s g'"
  "map_option player_state (players (fold (player_off g) ls s) g')
     = map_option player_state (players s g')"
  by (induction ls arbitrary: s) (auto simp: player_off_def update_player_def split: option.splits)

lemma cleanupEventListeners_fields [simp]:
  "connections (cleanupEventListeners s g) = connections s"
  "currentStreams (cleanupEventListeners s g) = currentStreams s"
  "volumes (cleanupEventListeners s g) = volumes s"
  "ffmpegProcesses (cleanupEventListeners s g) = ffmpegProcesses s"
  "connectionListeners (cleanupEventListeners s g) = (connectionListeners s)(g := None)"
  "playerListeners (cleanupEventListeners s g) = (playerListeners s)(g := None)"
  "voice_registry (cleanupEventListeners s g) = voice_registry s"
  "processes (cleanupEventListeners s g) = processes s"
  "next_proc (cleanupEventListeners s g) = next_proc s"
  "next_conn (cleanupEventListeners s g) = next_conn s"
  "timers (cleanupEventListeners s g) = timers s"
  "conn_status (voice_connections (cleanupEventListeners s g) c) = conn_status (voice_connections
      s c)"
  "join_channel (voice_connections (cleanupEventListeners s g) c) = join_channel
      (voice_connections s c)"
  "conn_guild (voice_connections (cleanupEventListeners s g) c) = conn_guild (voice_connections s
      c)"
  "g' \<noteq> g \<Longrightarrow> players (cleanupEventListeners s g) g' = players s g'"
  "map_option player_state (players (cleanupEventListeners s g) g')
     = map_option player_state (players s g')"
  by (simp_all add: cleanupEventListeners_def Let_def fun_upd_idem split: option.splits)

lemma cleanupFFmpeg_fields [simp]:
  "connections (cleanupFFmpeg s g) = connections s"
  "volumes (cleanupFFmpeg s g) = volumes s"
  "connectionListeners (cleanupFFmpeg s g) = connectionListeners s"
  "playerListeners (cleanupFFmpeg s g) = playerListeners s"
  "voice_registry (cleanupFFmpeg s g) = voice_registry s"
  "voice_connections (cleanupFFmpeg s g) = voice_connections s"
  "next_proc (cleanupFFmpeg s g) = next_proc s"
  "next_conn (cleanupFFmpeg s g) = next_conn s"
  by (simp_all add: cleanupFFmpeg_def Let_def split: option.splits)

lemma conn_destroy_fields [simp]:
  "connections (conn_destroy c s) = connections s"
  "players (conn_destroy c s) = players s"
  "currentStreams (conn_destroy c s) = currentStreams s"
  "volumes (conn_destroy c s) = volumes s"
  "ffmpegProcesses (conn_destroy c s) = ffmpegProcesses s"
  "connectionListeners (conn_destroy c s) = connectionListeners s"
  "playerListeners (conn_destroy c s) = playerListeners s"
  "processes (conn_destroy c s) = processes s"
  "next_proc (conn_destroy c s) = next_proc s"
  "next_conn (conn_destroy c s) = next_conn s"
  "timers (conn_destroy c s) = timers s"
  "conn_status (voice_connections (conn_destroy c s) c) = Destroyed"
  "c' \<noteq> c \<Longrightarrow> voice_connections (conn_destroy c s) c' = voice_connections s c'"
  by (simp_all add: conn_destroy_def Let_def update_connection_def)

lemma map_of_filter_key:
  "map_of (filter (\<lambda>(k, v). k \<noteq> g) xs) g' = (if g' = g then None else map_of xs g')"
  by (induction xs) auto

lemma map_of_replace_key:
  "map_of (map (\<lambda>(k, v). if k = g then (k, c) else (k, v)) xs) g'
     = (if g' = g then map_option (\<lambda>v. c) (map_of xs g) else map_of xs g')"
  by (induction xs) auto

declare connection_of_def [simp] getVoiceConnection_def [simp]

lemma connection_of_delete [simp]:
  "map_of (connections (delete_connection g s)) g'
     = (if g' = g then None else map_of (connections s) g')"
  by (simp add: delete_connection_def map_of_filter_key)

lemma connection_of_set [simp]:
  "map_of (connections (set_connection g c s)) g'
     = (if g' = g then Some c else map_of (connections s) g')"
  by (auto simp: set_connection_def map_of_replace_key map_add_def split: option.splits)

lemma delete_connection_fields [simp]:
  "players (delete_connection g s) = players s"
  "currentStreams (delete_connection g s) = currentStreams s"
  "volumes (delete_connection g s) = volumes s"
  "ffmpegProcesses (delete_connection g s) = ffmpegProcesses s"
  "connectionListeners (delete_connection g s) = connectionListeners s"
  "playerListeners (delete_connection g s) = playerListeners s"
  "voice_registry (delete_connection g s) = voice_registry s"
  "voice_connections (delete_connection g s) = voice_connections s"
  "processes (delete_connection g s) = processes s"
  "next_proc (delete_connection g s) = next_proc s"
  "next_conn (delete_connection g s) = next_conn s"
  "timers (delete_connection g s) = timers s"
  "next_player (delete_connection g s) = next_player s"
  by (simp_all add: delete_connection_def)

lemma set_connection_fields [simp]:
  "players (set_connection g c s) = players s"
  "currentStreams (set_connection g c s) = currentStreams s"
  "volumes (set_connection g c s) = volumes s"
  "ffmpegProcesses (set_connection g c s) = ffmpegProcesses s"
  "connectionListeners (set_connection g c s) = connectionListeners s"
  "playerListeners (set_connection g c s) = playerListeners s"
  "voice_registry (set_connection g c s) = voice_registry s"
  "voice_connections (set_connection g c s) = voice_connections s"
  "processes (set_connection g c s) = processes s"
  "next_proc (set_connection g c s) = next_proc s"
  "next_conn (set_connection g c s) = next_conn s"
  "timers (set_connection g c s) = timers s"
  "next_player (set_connection g c s) = next_player s"
  by (simp_all add: set_connection_def)

lemma existingConnection_cleanup_prefix [simp]:
  "existingConnection (cleanupEventListeners (cleanupFFmpeg s g) g) g' = existingConnection s g'"
  by (simp add: existingConnection_def split: option.splits)

lemma cleanupGuildResources_fields [simp]:
  "map_of (connections (cleanupGuildResources s g)) g'
     = (if g' = g then None else map_of (connections s) g')"
  "players (cleanupGuildResources s g) g' = (if g' = g then None else players s g')"
  "currentStreams (cleanupGuildResources s g) = (currentStreams s)(g := None)"
  "volumes (cleanupGuildResources s g) = volumes s"
  "ffmpegProcesses (cleanupGuildResources s g) = (ffmpegProcesses s)(g := None)"
  "connectionListeners (cleanupGuildResources s g) = (connectionListeners s)(g := None)"
  "playerListeners (cleanupGuildResources s g) = (playerListeners s)(g := None)"
  "processes (cleanupGuildResources s g) = processes (cleanupFFmpeg s g)"
  "next_proc (cleanupGuildResources s g) = next_proc s"
  "next_conn (cleanupGuildResources s g) = next_conn s"
  by (simp_all add: cleanupGuildResources_def Let_def split: option.splits)

lemma cleanupGuildResources_destroys:
  "existingConnection s g = Some c
     \<Longrightarrow> conn_status (voice_connections (cleanupGuildResources s g) c) = Destroyed"
  by (simp add: cleanupGuildResources_def Let_def)

lemma cleanupGuildResources_no_session: "no_session (cleanupGuildResources s g) g"
  by (simp add: no_session_def hasConnection_def)


lemma update_fields [simp]:
  "connections (update_player g f s) = connections s"
  "currentStreams (update_player g f s) = currentStreams s"
  "ffmpegProcesses (update_player g f s) = ffmpegProcesses s"
  "connectionListeners (update_player g f s) = connectionListeners s"
  "playerListeners (update_player g f s) = playerListeners s"
  "voice_registry (update_player g f s) = voice_registry s"
  "voice_connections (update_player g f s) = voice_connections s"
  "processes (update_player g f s) = processes s"
  "next_proc (update_player g f s) = next_proc s"
  "next_conn (update_player g f s) = next_conn s"
  "timers (update_player g f s) = timers s"
  "next_player (update_player g f s) = next_player s"
  "next_player (update_connection c h s) = next_player s"
  "players (update_player g f s) g' = (if g' = g then map_option f (players s g) else players s g')"
  "connections (update_connection c h s) = connections s"
  "players (update_connection c h s) = players s"
  "currentStreams (update_connection c h s) = currentStreams s"
  "volumes (update_connection c h s) = volumes s"
  "ffmpegProcesses (update_connection c h s) = ffmpegProcesses s"
  "connectionListeners (update_connection c h s) = connectionListeners s"
  "playerListeners (update_connection c h s) = playerListeners s"
  "voice_registry (update_connection c h s) = voice_registry s"
  "processes (update_connection c h s) = processes s"
  "next_proc (update_connection c h s) = next_proc s"
  "next_conn (update_connection c h s) = next_conn s"
  "timers (update_connection c h s) = timers s"
  "voice_connections (update_connection c h s) c'
     = (if c' = c then h (voice_connections s c) else voice_connections s c')"
  by (simp_all add: update_player_def update_connection_def split: option.splits)

lemma setup_fields [simp]:
  "connections (setupConnectionListeners s g c) = connections s"
  "players (setupConnectionListeners s g c) = players s"
  "currentStreams (setupConnectionListeners s g c) = currentStreams s"
  "volumes (setupConnectionListeners s g c) = volumes s"
  "ffmpegProcesses (setupConnectionListeners s g c) = ffmpegProcesses s"
  "voice_registry (setupConnectionListeners s g c) = voice_registry s"
  "processes (setupConnectionListeners s g c) = processes s"
  "next_proc (setupConnectionListeners s g c) = next_proc s"
  "next_conn (setupConnectionListeners s g c) = next_conn s"
  "conn_status (voice_connections (setupConnectionListeners s g c) c')
     = conn_status (voice_connections s c')"
  "join_channel (voice_connections (setupConnectionListeners s g c) c')
     = join_channel (voice_connections s c')"
  "connections (setupPlayerListeners s g p) = connections s"
  "currentStreams (setupPlayerListeners s g p) = currentStreams s"
  "volumes (setupPlayerListeners s g p) = volumes s"
  "ffmpegProcesses (setupPlayerListeners s g p) = ffmpegProcesses s"
  "voice_registry (setupPlayerListeners s g p) = voice_registry s"
  "voice_connections (setupPlayerListeners s g p) = voice_connections s"
  "processes (setupPlayerListeners s g p) = processes s"
  "next_proc (setupPlayerListeners s g p) = next_proc s"
  "next_conn (setupPlayerListeners s g p) = next_conn s"
  "players (setupPlayerListeners s g p) g' =
     (if g' = g
      then map_option
             (\<lambda>pl. if player_id pl = p
                   then pl\<lparr>player_handlers :=
                            player_handlers pl @ [OnIdle, OnPlaying, OnPaused, OnError]\<rparr>
                   else pl) (players s g)
      else players s g')"
  by (simp_all add: setupConnectionListeners_def setupPlayerListeners_def Let_def)

lemma lib_join_fields [simp]:
  "connections (snd (lib_joinVoiceChannel s g ch)) = connections s"
  "players (snd (lib_joinVoiceChannel s g ch)) = players s"
  "currentStreams (snd (lib_joinVoiceChannel s g ch)) = currentStreams s"
  "volumes (snd (lib_joinVoiceChannel s g ch)) = volumes s"
  "ffmpegProcesses (snd (lib_joinVoiceChannel s g ch)) = ffmpegProcesses s"
  "processes (snd (lib_joinVoiceChannel s g ch)) = processes s"
  "next_proc (snd (lib_joinVoiceChannel s g ch)) = next_proc s"
  "connectionListeners (snd (lib_joinVoiceChannel s g ch)) = connectionListeners s"
  "playerListeners (snd (lib_joinVoiceChannel s g ch)) = playerListeners s"
  "timers (snd (lib_joinVoiceChannel s g ch)) = timers s"
  "next_player (snd (lib_joinVoiceChannel s g ch)) = next_player s"
  by (simp_all add: lib_joinVoiceChannel_def Let_def split: option.splits)

lemma entersState_fields [simp]:
  "connections (snd (entersState_Ready s c t w)) = connections s"
  "players (snd (entersState_Ready s c t w)) = players s"
  "currentStreams (snd (entersState_Ready s c t w)) = currentStreams s"
  "volumes (snd (entersState_Ready s c t w)) = volumes s"
  "ffmpegProcesses (snd (entersState_Ready s c t w)) = ffmpegProcesses s"
  "processes (snd (entersState_Ready s c t w)) = processes s"
  "next_proc (snd (entersState_Ready s c t w)) = next_proc s"
  "next_conn (snd (entersState_Ready s c t w)) = next_conn s"
  "voice_registry (snd (entersState_Ready s c t w)) = voice_registry s"
  by (simp_all add: entersState_Ready_def split: wait_outcome.splits)

lemma lib_join_conn:
  "conn_status (voice_connections (snd (lib_joinVoiceChannel s g ch)) (fst (lib_joinVoiceChannel s
      g ch)))
     \<noteq> Destroyed"
  "voice_registry (snd (lib_joinVoiceChannel s g ch)) g = Some (fst (lib_joinVoiceChannel s g ch))"
  "c' \<noteq> fst (lib_joinVoiceChannel s g ch)
     \<Longrightarrow> voice_connections (snd (lib_joinVoiceChannel s g ch)) c' =
         voice_connections s c'"
  "conn_status (voice_connections s c') = Destroyed \<Longrightarrow> c' < next_conn s
     \<Longrightarrow> c' \<noteq> fst (lib_joinVoiceChannel s g ch)"
  "voice_registry s g = None \<Longrightarrow> fst (lib_joinVoiceChannel s g ch) = next_conn s"
  "voice_registry s g = None
     \<Longrightarrow> conn_guild (voice_connections (snd (lib_joinVoiceChannel s g ch))
         (next_conn s)) = g
       \<and> conn_status (voice_connections (snd (lib_joinVoiceChannel s g ch)) (next_conn s)) =
           Signalling
       \<and> join_channel (voice_connections (snd (lib_joinVoiceChannel s g ch)) (next_conn s)) =
           ch"
  by (auto simp: lib_joinVoiceChannel_def Let_def update_connection_def split: option.splits)

lemma openConnection_fields [simp]:
  "volumes (snd (openConnection s g ch chan)) = volumes s"
  "currentStreams (snd (openConnection s g ch chan)) = (currentStreams s)(g := None)"
  "ffmpegProcesses (snd (openConnection s g ch chan)) = (ffmpegProcesses s)(g := None)"
  "processes (snd (openConnection s g ch chan)) = processes (cleanupFFmpeg s g)"
  "next_proc (snd (openConnection s g ch chan)) = next_proc s"
  "connectionListeners (snd (openConnection s g ch chan)) = (connectionListeners s)(g := None)"
  "playerListeners (snd (openConnection s g ch chan)) = (playerListeners s)(g := None)"
  "map_of (connections (snd (openConnection s g ch chan))) g'
     = (if g' = g then Some (fst (fst (openConnection s g ch chan))) else map_of (connections s)
         g')"
  "players (snd (openConnection s g ch chan)) g' =
     (if g' = g
      then Some \<lparr>player_id = snd (fst (openConnection s g ch chan)), player_state =
          IdleState,
                 player_handlers = []\<rparr>
      else players s g')"
  by (simp_all add: openConnection_def Let_def createAudioPlayer_def case_prod_beta)

lemma openConnection_conn:
  "fst (fst (openConnection s g ch chan))
     = fst (lib_joinVoiceChannel (cleanupGuildResources s g) g ch)"
  "conn_status (voice_connections (snd (openConnection s g ch chan))
       (fst (fst (openConnection s g ch chan)))) \<noteq> Destroyed"
  "voice_registry (snd (openConnection s g ch chan)) g
     = Some (fst (fst (openConnection s g ch chan)))"
  using lib_join_conn(1,2)[of "cleanupGuildResources s g" g ch]
  by (simp_all add: openConnection_def Let_def createAudioPlayer_def case_prod_beta)

lemma volumes_replaceConnection [simp]:
  "volumes (snd (replaceConnection s g ch chan w)) = volumes s"
  by (simp add: replaceConnection_def Let_def case_prod_beta split: sum.splits)

lemma volumes_reuseConnection [simp]:
  "volumes (snd (reuseConnection s g c)) = volumes s"
  by (simp add: reuseConnection_def Let_def createAudioPlayer_def case_prod_beta
      split: option.splits)

lemma volumes_join_try [simp]: "volumes (snd (join_try s g ch gd w)) = volumes s"
  by (simp add: join_try_def split: sum.splits option.splits)

lemma volumes_joinVoiceChannel [simp]: "volumes (snd (joinVoiceChannel s g ch gd w)) = volumes s"
  by (simp add: joinVoiceChannel_def case_prod_beta split: sum.splits)

lemma join_failure_no_session:
  "fst (joinVoiceChannel s g ch gd w) = Inl e \<Longrightarrow> no_session (snd (joinVoiceChannel
      s g ch gd w)) g"
  by (auto simp: joinVoiceChannel_def cleanupGuildResources_no_session case_prod_beta
      split: sum.splits)

section \<open>Joining\<close>

lemma join_validation_error:
  "validateChannel gd ch = Inl e \<Longrightarrow> fst (joinVoiceChannel s g ch gd w) = Inl e"
  by (simp add: joinVoiceChannel_def join_try_def)

lemma fst_reuseConnection: "\<exists>p. fst (reuseConnection s g c) = Inr (c, p)"
  by (simp add: reuseConnection_def Let_def case_prod_beta split: option.splits)

lemma reuse_no_error [simp]: "fst (reuseConnection s g c) \<noteq> Inl e"
  using fst_reuseConnection[of s g c] by auto

lemma entersState_error:
  "fst (entersState_Ready s c t w) = Inl e \<Longrightarrow> e = ConnectionTimeout t \<and> w =
      TimesOut"
  by (auto simp: entersState_Ready_def split: if_splits wait_outcome.splits)

lemma replaceConnection_error:
  "fst (replaceConnection s g ch chan w) = Inl e
     \<Longrightarrow> e = ConnectionTimeout CONNECTION_TIMEOUT \<and> w = TimesOut"
  by (auto simp: replaceConnection_def Let_def case_prod_beta split: sum.splits
      dest: entersState_error)

lemma join_error_kind:
  assumes "fst (joinVoiceChannel s g ch gd w) = Inl e"
  shows "validateChannel gd ch = Inl e \<or> (e = ConnectionTimeout 10000 \<and> w = TimesOut)"
proof (cases "validateChannel gd ch")
  case (Inl e')
  then show ?thesis using assms join_validation_error[OF Inl, of s g w] by simp
next
  case (Inr chan)
  have "fst (join_try s g ch gd w) = Inl e"
    using assms by (simp add: joinVoiceChannel_def case_prod_beta split: sum.splits)
  then have "e = ConnectionTimeout CONNECTION_TIMEOUT \<and> w = TimesOut"
    using Inr replaceConnection_error[of s g ch chan w e]
    by (auto simp: join_try_def split: option.splits if_splits)
  then show ?thesis by (simp add: CONNECTION_TIMEOUT_def)
qed

lemma validateChannel_invalid:
  "guild_channels gd ch = None \<or> (\<exists>c. guild_channels gd ch = Some c \<and>
      channel_type c \<noteq> 2)
     \<Longrightarrow> validateChannel gd ch = Inl InvalidChannel"
  by (auto simp: validateChannel_def)

lemma validateChannel_denied:
  "guild_channels gd ch = Some c \<Longrightarrow> channel_type c = 2 \<Longrightarrow>
      permissionsFor c = Some P
     \<Longrightarrow> Connect \<notin> P \<or> Speak \<notin> P \<Longrightarrow> validateChannel
         gd ch = Inl PermissionDenied"
  by (auto simp: validateChannel_def)


lemma voice_registry_conn_destroy:
  "voice_registry (conn_destroy c s) =
     (if conn_status (voice_connections s c) \<noteq> Destroyed
         \<and> voice_registry s (conn_guild (voice_connections s c)) = Some c
      then (voice_registry s)(conn_guild (voice_connections s c) := None) else voice_registry s)"
  by (simp add: conn_destroy_def Let_def update_connection_def)

lemma conn_destroy_heap:
  "join_channel (voice_connections (conn_destroy c s) c') = join_channel (voice_connections s c')"
  "conn_guild (voice_connections (conn_destroy c s) c') = conn_guild (voice_connections s c')"
  "conn_status (voice_connections (conn_destroy c s) c')
     = (if c' = c then Destroyed else conn_status (voice_connections s c'))"
  by (simp_all add: conn_destroy_def Let_def update_connection_def)

lemma cleanup_heap:
  "join_channel (voice_connections (cleanupGuildResources s g) c')
     = join_channel (voice_connections s c')"
  "conn_guild (voice_connections (cleanupGuildResources s g) c')
     = conn_guild (voice_connections s c')"
  "conn_status (voice_connections (cleanupGuildResources s g) c')
     = (if existingConnection s g = Some c' then Destroyed else conn_status (voice_connections s
         c'))"
  by (auto simp: cleanupGuildResources_def Let_def conn_destroy_heap split: option.splits)

lemma cleanup_registry:
  "voice_registry (cleanupGuildResources s g) =
     (case existingConnection s g of
        None \<Rightarrow> voice_registry s
      | Some c \<Rightarrow>
          (if conn_status (voice_connections s c) \<noteq> Destroyed
              \<and> voice_registry s (conn_guild (voice_connections s c)) = Some c
           then (voice_registry s)(conn_guild (voice_connections s c) := None)
           else voice_registry s))"
  by (simp add: cleanupGuildResources_def Let_def voice_registry_conn_destroy split: option.splits)


lemma openConnection_heap:
  "conn_status (voice_connections (snd (openConnection s g ch chan)) c')
     = conn_status (voice_connections (snd (lib_joinVoiceChannel (cleanupGuildResources s g) g
         ch)) c')"
  "conn_guild (voice_connections (snd (openConnection s g ch chan)) c')
     = conn_guild (voice_connections (snd (lib_joinVoiceChannel (cleanupGuildResources s g) g ch))
         c')"
  "join_channel (voice_connections (snd (openConnection s g ch chan)) c')
     = join_channel (voice_connections (snd (lib_joinVoiceChannel (cleanupGuildResources s g) g
         ch)) c')"
  by (simp_all add: openConnection_def Let_def createAudioPlayer_def case_prod_beta)

lemma first_join_times_out:
  assumes "validateChannel gd ch = Inr chan" "existingConnection s g = None"
  shows "fst (joinVoiceChannel s g ch gd TimesOut) = Inl (ConnectionTimeout 10000)
    \<and> conn_status (voice_connections (snd (joinVoiceChannel s g ch gd TimesOut)) (next_conn
        s)) = Destroyed
    \<and> getVoiceConnection (snd (joinVoiceChannel s g ch gd TimesOut)) g = None"
proof -
  define s1 where "s1 = cleanupGuildResources s g"
  define s7 where "s7 = snd (openConnection s g ch chan)"
  have reg: "voice_registry s1 g = None"
    using assms(2) by (auto simp: s1_def cleanup_registry existingConnection_def split:
        option.splits)
  have c: "fst (fst (openConnection s g ch chan)) = next_conn s"
    using lib_join_conn(5)[OF reg] by (simp add: openConnection_conn(1) s1_def)
  have fresh: "conn_guild (voice_connections s7 (next_conn s)) = g"
    "conn_status (voice_connections s7 (next_conn s)) = Signalling"
    using lib_join_conn(6)[OF reg, of ch] by (simp_all add: s7_def openConnection_heap s1_def)
  have wait: "entersState_Ready s7 (next_conn s) CONNECTION_TIMEOUT TimesOut
      = (Inl (ConnectionTimeout CONNECTION_TIMEOUT), s7)"
    by (simp add: entersState_Ready_def fresh)
  have tr: "join_try s g ch gd TimesOut = (Inl (ConnectionTimeout CONNECTION_TIMEOUT), s7)"
    using assms wait c
    by (simp add: join_try_def replaceConnection_def Let_def case_prod_beta s7_def)
  have res: "joinVoiceChannel s g ch gd TimesOut
      = (Inl (ConnectionTimeout CONNECTION_TIMEOUT), cleanupGuildResources s7 g)"
    by (simp add: joinVoiceChannel_def tr)
  have ex: "existingConnection s7 g = Some (next_conn s)"
    using c by (simp add: existingConnection_def s7_def)
  have r7: "voice_registry s7 g = Some (next_conn s)"
    using openConnection_conn(3)[of s g ch chan] c by (simp add: s7_def)
  show ?thesis
    using ex r7 fresh
    by (simp add: res cleanup_heap cleanup_registry CONNECTION_TIMEOUT_def)
qed

text \<open>A join whose target is valid and whose connection becomes ready succeeds.\<close>

lemma join_succeeds:
  assumes "validateChannel gd ch = Inr chan"
  shows "\<exists>c p. fst (joinVoiceChannel s g ch gd ReachesReady) = Inr (c, p)
     \<and> map_of (connections (snd (joinVoiceChannel s g ch gd ReachesReady))) g = Some c
     \<and> players (snd (joinVoiceChannel s g ch gd ReachesReady)) g \<noteq> None"
proof -
  have replace: "\<exists>c p. fst (replaceConnection s g ch chan ReachesReady) = Inr (c, p)
     \<and> map_of (connections (snd (replaceConnection s g ch chan ReachesReady))) g = Some c
     \<and> players (snd (replaceConnection s g ch chan ReachesReady)) g \<noteq> None"
    by (auto simp: replaceConnection_def Let_def case_prod_beta entersState_Ready_def
        intro: exI[of _ "snd (fst (openConnection s g ch chan))"])
  have reuse: "\<exists>p. fst (reuseConnection s g c) = Inr (c, p)
     \<and> map_of (connections (snd (reuseConnection s g c))) g = Some c
     \<and> players (snd (reuseConnection s g c)) g \<noteq> None" if "existingConnection s g =
         Some c" for c
    using that
    by (auto simp: reuseConnection_def Let_def case_prod_beta createAudioPlayer_def
        existingConnection_def split: option.splits)
  show ?thesis
  proof (cases "existingConnection s g")
    case None
    then show ?thesis
      using assms replace
      by (auto simp: joinVoiceChannel_def join_try_def case_prod_beta split: sum.splits)
  next
    case (Some c)
    then show ?thesis
      using assms replace reuse[OF Some]
      by (auto simp: joinVoiceChannel_def join_try_def case_prod_beta split: sum.splits)
  qed
qed

text \<open>
  Claim C2. Whenever \<^verbatim>\<open>joinVoiceChannel\<close> fails, nothing of a session is left for the
  guild afterwards (no connection, so \<^verbatim>\<open>hasConnection\<close> is false, no player, stream,
  process entry or listener entry), and the error is the one of its cause: the error of the
  validation when the target is refused (invalid channel for a channel that is missing or
  not of type 2, permission denied when Connect or Speak is missing), and otherwise the
  timeout of 10000 ms of a connection that did not become ready. A first join that times
  out leaves the connection it had created destroyed and untracked.
\<close>

theorem join_failure_rolls_back:
  "(\<forall>e. fst (joinVoiceChannel s g ch gd w) = Inl e \<longrightarrow>
       no_session (snd (joinVoiceChannel s g ch gd w)) g
       \<and> \<not> hasConnection (snd (joinVoiceChannel s g ch gd w)) g
       \<and> (validateChannel gd ch = Inl e \<or> (e = ConnectionTimeout 10000 \<and> w =
           TimesOut)))
   \<and> (\<forall>e. validateChannel gd ch = Inl e \<longrightarrow> fst (joinVoiceChannel s g
       ch gd w) = Inl e)
   \<and> (guild_channels gd ch = None \<or> (\<exists>c. guild_channels gd ch = Some c \<and>
       channel_type c \<noteq> 2)
        \<longrightarrow> fst (joinVoiceChannel s g ch gd w) = Inl InvalidChannel)
   \<and> (\<forall>c P. guild_channels gd ch = Some c \<and> channel_type c = 2 \<and>
       permissionsFor c = Some P
          \<and> (Connect \<notin> P \<or> Speak \<notin> P)
        \<longrightarrow> fst (joinVoiceChannel s g ch gd w) = Inl PermissionDenied)
   \<and> (\<forall>chan. validateChannel gd ch = Inr chan \<and> existingConnection s g = None
       \<and> w = TimesOut
        \<longrightarrow> fst (joinVoiceChannel s g ch gd w) = Inl (ConnectionTimeout 10000)
          \<and> conn_status (voice_connections (snd (joinVoiceChannel s g ch gd w)) (next_conn s))
              = Destroyed
          \<and> getVoiceConnection (snd (joinVoiceChannel s g ch gd w)) g = None)"
proof (intro conjI allI impI)
  fix e assume e: "fst (joinVoiceChannel s g ch gd w) = Inl e"
  show n: "no_session (snd (joinVoiceChannel s g ch gd w)) g"
    using e by (rule join_failure_no_session)
  then show "\<not> hasConnection (snd (joinVoiceChannel s g ch gd w)) g"
    by (simp add: no_session_def)
  show "validateChannel gd ch = Inl e \<or> (e = ConnectionTimeout 10000 \<and> w = TimesOut)"
    using e by (rule join_error_kind)
next
  fix e assume "validateChannel gd ch = Inl e"
  then show "fst (joinVoiceChannel s g ch gd w) = Inl e"
    by (rule join_validation_error)
next
  assume "guild_channels gd ch = None \<or> (\<exists>c. guild_channels gd ch = Some c \<and>
      channel_type c \<noteq> 2)"
  then show "fst (joinVoiceChannel s g ch gd w) = Inl InvalidChannel"
    by (intro join_validation_error validateChannel_invalid)
next
  fix c P
  assume "guild_channels gd ch = Some c \<and> channel_type c = 2 \<and> permissionsFor c = Some P
          \<and> (Connect \<notin> P \<or> Speak \<notin> P)"
  then show "fst (joinVoiceChannel s g ch gd w) = Inl PermissionDenied"
    by (intro join_validation_error validateChannel_denied[of gd ch c P]) simp_all
next
  fix chan
  assume a: "validateChannel gd ch = Inr chan \<and> existingConnection s g = None \<and> w =
      TimesOut"
  then have t: "fst (joinVoiceChannel s g ch gd TimesOut) = Inl (ConnectionTimeout 10000)
    \<and> conn_status (voice_connections (snd (joinVoiceChannel s g ch gd TimesOut)) (next_conn
        s)) = Destroyed
    \<and> getVoiceConnection (snd (joinVoiceChannel s g ch gd TimesOut)) g = None"
    by (intro first_join_times_out[of gd ch chan]) simp_all
  show "fst (joinVoiceChannel s g ch gd w) = Inl (ConnectionTimeout 10000)"
    using a t by simp
  show "conn_status (voice_connections (snd (joinVoiceChannel s g ch gd w)) (next_conn s)) =
      Destroyed"
    using a t by simp
  show "getVoiceConnection (snd (joinVoiceChannel s g ch gd w)) g = None"
    using a t by simp
qed

section \<open>Leaving\<close>

lemma filter_absent_key: "map_of xs g = None \<Longrightarrow> filter (\<lambda>(k, v). k \<noteq>
    g) xs = xs"
  by (induction xs) (auto split: if_splits)

lemma cleanup_without_session:
  assumes "no_session s g" "getVoiceConnection s g = None"
  shows "cleanupGuildResources s g = s"
  using assms
  by (simp add: cleanupGuildResources_def cleanupFFmpeg_def cleanupEventListeners_def Let_def
      existingConnection_def no_session_def hasConnection_def delete_connection_def
      filter_absent_key fun_upd_idem)

text \<open>
  Claim C9, as the code has it. \<^verbatim>\<open>leaveVoiceChannel\<close> always answers true, also for a
  guild without a session; it never raises. Whatever the state of the session, afterwards
  nothing of it is left, its connection is destroyed and its process has been signalled
  or has ended; a second call answers true again and still leaves nothing; and a join that
  follows, to a valid target with a connection that becomes ready, succeeds.
\<close>

theorem leave_releases_everything:
  "fst (leaveVoiceChannel s g)
   \<and> no_session (snd (leaveVoiceChannel s g)) g
   \<and> (\<forall>c. existingConnection s g = Some c \<longrightarrow>
         conn_status (voice_connections (snd (leaveVoiceChannel s g)) c) = Destroyed)
   \<and> (\<forall>p. ffmpegProcesses s g = Some p \<longrightarrow>
         \<not> proc_unsignalled (processes (snd (leaveVoiceChannel s g)) p))
   \<and> (no_session s g \<longrightarrow> fst (leaveVoiceChannel s g) = True)
   \<and> fst (leaveVoiceChannel (snd (leaveVoiceChannel s g)) g)
   \<and> no_session (snd (leaveVoiceChannel (snd (leaveVoiceChannel s g)) g)) g
   \<and> (\<forall>chan. validateChannel gd ch = Inr chan \<longrightarrow>
         (\<exists>c p. fst (joinVoiceChannel (snd (leaveVoiceChannel s g)) g ch gd ReachesReady)
             = Inr (c, p))
         \<and> hasConnection (snd (joinVoiceChannel (snd (leaveVoiceChannel s g)) g ch gd
             ReachesReady)) g)"
proof -
  have join: "(\<exists>c p. fst (joinVoiceChannel (snd (leaveVoiceChannel s g)) g ch gd
      ReachesReady) = Inr (c, p))
         \<and> hasConnection (snd (joinVoiceChannel (snd (leaveVoiceChannel s g)) g ch gd
             ReachesReady)) g"
    if "validateChannel gd ch = Inr chan" for chan
    using join_succeeds[OF that, of "snd (leaveVoiceChannel s g)" g]
    by (auto simp: hasConnection_def)
  show ?thesis
    using join
    by (simp add: leaveVoiceChannel_def cleanupGuildResources_no_session
        cleanupGuildResources_destroys cleanupFFmpeg_not_live)
qed

text \<open>
  Claim C9 as stated fails: for a guild without a session \<^verbatim>\<open>leaveVoiceChannel\<close> answers
  true, not false.
\<close>

theorem leave_without_session_returns_true:
  "no_session initial ''guild'' \<and> getVoiceConnection initial ''guild'' = None
   \<and> fst (leaveVoiceChannel initial ''guild'') = True"
  by (simp add: no_session_def hasConnection_def initial_def leaveVoiceChannel_def)

section \<open>Volume and the session's end\<close>

lemma legacy_cleanup_fields [simp]:
  "volumes (legacy_cleanupGuildResources s g) = volumes s"
  by (simp add: legacy_cleanupGuildResources_def Let_def split: option.splits)

lemma volumes_fold_legacy_cleanup [simp]:
  "volumes (fold (\<lambda>g st. legacy_cleanupGuildResources st g) gs s) = volumes s"
  by (induction gs arbitrary: s) simp_all

lemma volumes_legacy_shutdown: "volumes (legacy_shutdown s) = volumes s"
  by (simp add: legacy_shutdown_def Let_def)

lemma volumes_shutdown: "volumes (shutdown s) = Map.empty"
  by (simp add: shutdown_def Let_def)

lemma startStream_volume:
  assumes "players s g \<noteq> None" "\<not> spawn_throws sp (ffmpeg_args u)"
  shows "\<exists>pl r. players (snd (startStream s g u d sp)) g = Some pl
     \<and> player_state pl = BufferingState r \<and> res_input r = next_proc s
     \<and> res_volume r = Some (getVolume s g)"
  using assms
  by (auto simp: startStream_def Let_def case_prod_beta createFFmpegStream_def
      stopCurrentPlayback_def
      createAudioResource_def resource_setVolume_def player_play_def getVolume_def cleanupFFmpeg_def
      split: option.splits)

lemma playStream_startStream:
  "\<exists>d. playStream s g req sp = startStream s g (request_url req) d sp"
  by (cases req) (auto simp: playStream_def playRadio_def playQuran_def)

lemma volumes_startStream [simp]: "volumes (snd (startStream s g u d sp)) = volumes s"
  by (auto simp: startStream_def Let_def createFFmpegStream_def stopCurrentPlayback_def
      split: option.splits)

lemma volumes_playStream [simp]: "volumes (snd (playStream s g req sp)) = volumes s"
  by (cases req) (simp_all add: playStream_def playRadio_def playQuran_def)

lemma playStream_volume:
  assumes "players s g \<noteq> None" "\<not> spawn_throws sp (ffmpeg_args (request_url req))"
  shows "\<exists>pl r. players (snd (playStream s g req sp)) g = Some pl
     \<and> resource_of (player_state pl) = Some r \<and> res_volume r = Some (getVolume s g)"
proof -
  obtain d where "playStream s g req sp = startStream s g (request_url req) d sp"
    using playStream_startStream by blast
  then show ?thesis
    using startStream_volume[OF assms, of d] by auto
qed

lemma join_success_player:
  assumes "fst (joinVoiceChannel s g ch gd w) = Inr r"
  shows "players (snd (joinVoiceChannel s g ch gd w)) g \<noteq> None"
proof -
  have a: "players (snd (replaceConnection s g ch chan w)) g \<noteq> None"
    if "fst (replaceConnection s g ch chan w) = Inr r" for chan
    using that
    by (auto simp: replaceConnection_def Let_def case_prod_beta split: sum.splits)
  have b: "players (snd (reuseConnection s g c)) g \<noteq> None" for c
    by (auto simp: reuseConnection_def Let_def case_prod_beta createAudioPlayer_def
        split: option.splits)
  have "fst (join_try s g ch gd w) = Inr r \<and> joinVoiceChannel s g ch gd w = join_try s g ch
      gd w"
    using assms by (auto simp: joinVoiceChannel_def case_prod_beta prod_eq_iff split: sum.splits)
  then show ?thesis
    using a b by (auto simp: join_try_def split: sum.splits option.splits if_splits)
qed

lemma playStream_resource_volume:
  assumes "players s g \<noteq> None" "\<not> spawn_throws sp (ffmpeg_args (request_url req))"
  shows "resource_volume (snd (playStream s g req sp)) g = Some (getVolume s g)"
  using playStream_volume[OF assms] by (auto simp: resource_volume_def)

text \<open>
  Claim C7, as the code has it. Every path through \<^verbatim>\<open>cleanupGuildResources\<close> (the
  explicit leave, the two connection listeners, a failing or a replacing join), in either
  manager, leaves the volume map as it was, and the stored volume is the one set on the
  resource of the next stream the guild starts after leaving and joining again (a stream
  starts when its transcoder can be spawned; a play operation keeps the volume map whether
  it starts one or not). The unified manager's \<^verbatim>\<open>shutdown\<close> empties the volume map; the
  earlier manager's keeps it.
\<close>

theorem volume_survives_cleanup:
  "volumes (cleanupGuildResources s g) = volumes s
   \<and> volumes (snd (leaveVoiceChannel s g)) = volumes s
   \<and> volumes (disconnectedListener s g recovers) = volumes s
   \<and> volumes (destroyedListener s g) = volumes s
   \<and> volumes (snd (joinVoiceChannel s g ch gd w)) = volumes s
   \<and> volumes (legacy_cleanupGuildResources s g) = volumes s
   \<and> volumes (legacy_shutdown s) = volumes s
   \<and> volumes (shutdown s) = Map.empty
   \<and> volumes (snd (playStream s g req sp)) = volumes s
   \<and> (\<forall>r. fst (joinVoiceChannel (snd (leaveVoiceChannel s g)) g ch gd w) = Inr r
          \<and> \<not> spawn_throws sp (ffmpeg_args (request_url req)) \<longrightarrow>
        resource_volume
          (snd (playStream (snd (joinVoiceChannel (snd (leaveVoiceChannel s g)) g ch gd w)) g req
                 sp)) g
          = Some (getVolume s g))"
proof -
  have "resource_volume
          (snd (playStream (snd (joinVoiceChannel (snd (leaveVoiceChannel s g)) g ch gd w)) g req
                 sp)) g
          = Some (getVolume s g)"
    if "fst (joinVoiceChannel (snd (leaveVoiceChannel s g)) g ch gd w) = Inr r"
      and "\<not> spawn_throws sp (ffmpeg_args (request_url req))" for r
    using playStream_resource_volume[OF join_success_player[OF that(1)] that(2)]
    by (simp add: getVolume_def leaveVoiceChannel_def)
  then show ?thesis
    by (simp add: leaveVoiceChannel_def disconnectedListener_def destroyedListener_def
        volumes_legacy_shutdown volumes_shutdown)
qed

lemma tuned_volume: "volumes tuned ''guild'' = Some (Fin (1 / 2))"
  by (simp add: tuned_def model_defs setVolume_def isPlayerReady_def Math_max_def Math_min_def
      MIN_VOLUME_def MAX_VOLUME_def)

text \<open>
  Claim C7 as stated fails on the cleanup path \<^verbatim>\<open>shutdown\<close>: the guild's chosen volume
  one half is gone afterwards, and the next stream it starts plays at the default 1.
\<close>

theorem volume_lost_on_shutdown:
  "getVolume tuned ''guild'' = Fin (1 / 2)
   \<and> volumes (shutdown tuned) ''guild'' = None
   \<and> getVolume (shutdown tuned) ''guild'' = Fin 1
   \<and> resource_volume
        (run [Join ''guild'' ''voice'' example_guild ReachesReady,
              Play ''guild'' (RadioRequest ''http://radio.example/live'' []) Spawns]
           (shutdown tuned)) ''guild''
       = Some (Fin 1)"
proof -
  have v: "volumes (shutdown tuned) = Map.empty"
    by (rule volumes_shutdown)
  obtain c p where j:
    "fst (joinVoiceChannel (shutdown tuned) ''guild'' ''voice'' example_guild ReachesReady)
       = Inr (c, p)"
    using join_succeeds[of example_guild "''voice''" _ "shutdown tuned" "''guild''"]
    by (auto simp: validateChannel_def example_guild_def)
  have "getVolume (snd (joinVoiceChannel (shutdown tuned) ''guild'' ''voice''
        example_guild ReachesReady)) ''guild'' = Fin 1"
    by (simp add: getVolume_def v DEFAULT_VOLUME_def)
  moreover have sp: "\<not> spawn_throws Spawns
      (ffmpeg_args (request_url (RadioRequest ''http://radio.example/live'' [])))"
    by (simp add: spawn_throws_def ffmpeg_args_def)
  ultimately show ?thesis
    using playStream_resource_volume[OF join_success_player[OF j] sp] tuned_volume
    by (simp add: run_def getVolume_def v DEFAULT_VOLUME_def)
qed

section \<open>Reusing and replacing a connection\<close>

lemma reuse_effect:
  assumes "existingConnection s g = Some c"
  shows "\<exists>p. fst (reuseConnection s g c) = Inr (c, p)"
    and "map_of (connections (snd (reuseConnection s g c))) g = Some c"
    and "next_conn (snd (reuseConnection s g c)) = next_conn s"
    and "voice_registry (snd (reuseConnection s g c)) = voice_registry s"
    and "conn_status (voice_connections (snd (reuseConnection s g c)) c')
           = conn_status (voice_connections s c')"
    and "join_channel (voice_connections (snd (reuseConnection s g c)) c')
           = join_channel (voice_connections s c')"
    and "map_of (connections s) g = Some c \<Longrightarrow> players s g \<noteq> None
           \<Longrightarrow> snd (reuseConnection s g c) = s"
  using assms
  by (auto simp: reuseConnection_def Let_def case_prod_beta createAudioPlayer_def
      existingConnection_def split: option.splits)

lemma join_reuse:
  assumes "validateChannel gd ch = Inr chan" "existingConnection s g = Some c"
    "sameChannelHealthy s c ch"
  shows "joinVoiceChannel s g ch gd w = reuseConnection s g c"
  using assms reuse_no_error[of s g c]
  by (auto simp: joinVoiceChannel_def join_try_def case_prod_beta prod_eq_iff split: sum.splits)

lemma replace_destroys:
  assumes "existingConnection s g = Some c" "c < next_conn s"
  shows "fst (fst (openConnection s g ch chan)) \<noteq> c"
    and "conn_status (voice_connections (snd (openConnection s g ch chan)) c) = Destroyed"
proof -
  have d: "conn_status (voice_connections (cleanupGuildResources s g) c) = Destroyed"
    using assms(1) by (simp add: cleanup_heap)
  show ne: "fst (fst (openConnection s g ch chan)) \<noteq> c"
    using lib_join_conn(4)[of "cleanupGuildResources s g" c g ch] d assms(2)
    by (simp add: openConnection_conn(1))
  show "conn_status (voice_connections (snd (openConnection s g ch chan)) c) = Destroyed"
    using lib_join_conn(3)[of c "cleanupGuildResources s g" g ch] ne d
    by (simp add: openConnection_heap openConnection_conn(1))
qed

lemma entersState_heap:
  "c' \<noteq> c \<Longrightarrow> voice_connections (snd (entersState_Ready s c t w)) c' =
      voice_connections s c'"
  "fst (entersState_Ready s c t w) = Inr u
     \<Longrightarrow> conn_status (voice_connections (snd (entersState_Ready s c t w)) c) = Ready"
  "fst (entersState_Ready s c t w) = Inl e \<Longrightarrow> snd (entersState_Ready s c t w) = s"
  "fst (entersState_Ready s c t ReachesReady) = Inr ()"
  by (auto simp: entersState_Ready_def split: wait_outcome.splits if_splits)

lemma replace_effect:
  assumes "existingConnection s g = Some c" "c < next_conn s"
  shows "conn_status (voice_connections (snd (replaceConnection s g ch chan w)) c) = Destroyed
           \<or> (\<exists>e. fst (replaceConnection s g ch chan w) = Inl e
                 \<and> conn_status (voice_connections (cleanupGuildResources
                       (snd (replaceConnection s g ch chan w)) g) c) = Destroyed)"
    and "\<exists>c' p. fst (replaceConnection s g ch chan ReachesReady) = Inr (c', p) \<and> c'
        \<noteq> c
           \<and> map_of (connections (snd (replaceConnection s g ch chan ReachesReady))) g = Some
               c'
           \<and> conn_status (voice_connections (snd (replaceConnection s g ch chan
               ReachesReady)) c')
               = Ready
           \<and> conn_status (voice_connections (snd (replaceConnection s g ch chan
               ReachesReady)) c)
               = Destroyed"
proof -
  define c' where "c' = fst (fst (openConnection s g ch chan))"
  define p where "p = snd (fst (openConnection s g ch chan))"
  define s7 where "s7 = snd (openConnection s g ch chan)"
  note d = replace_destroys[OF assms, of ch chan, folded c'_def s7_def]
  have o: "openConnection s g ch chan = ((c', p), s7)"
    by (simp add: c'_def p_def s7_def)
  have keep: "conn_status (voice_connections (snd (entersState_Ready s7 c' CONNECTION_TIMEOUT v)) c)
      = Destroyed" for v
    using d entersState_heap(1)[of c c' s7] by simp
  show "conn_status (voice_connections (snd (replaceConnection s g ch chan w)) c) = Destroyed
           \<or> (\<exists>e. fst (replaceConnection s g ch chan w) = Inl e
                 \<and> conn_status (voice_connections (cleanupGuildResources
                       (snd (replaceConnection s g ch chan w)) g) c) = Destroyed)"
    using keep[of w]
    by (simp add: replaceConnection_def o Let_def case_prod_beta split: sum.splits)
  have ok: "fst (entersState_Ready s7 c' CONNECTION_TIMEOUT ReachesReady) = Inr ()"
    by (rule entersState_heap(4))
  show "\<exists>c' p. fst (replaceConnection s g ch chan ReachesReady) = Inr (c', p) \<and> c'
      \<noteq> c
           \<and> map_of (connections (snd (replaceConnection s g ch chan ReachesReady))) g = Some
               c'
           \<and> conn_status (voice_connections (snd (replaceConnection s g ch chan
               ReachesReady)) c')
               = Ready
           \<and> conn_status (voice_connections (snd (replaceConnection s g ch chan
               ReachesReady)) c)
               = Destroyed"
    using ok keep[of ReachesReady] d(1) entersState_heap(2)[OF ok]
      openConnection_fields(8)[of s g ch chan g]
    by (simp add: replaceConnection_def o Let_def case_prod_beta)
qed

text \<open>
  For a target that passes the validation: when the guild's existing connection
  (the stored one, else the one the voice library tracks) points at the requested channel
  and is neither destroyed nor disconnected, \<^verbatim>\<open>joinVoiceChannel\<close> returns that very
  connection, creates no connection, destroys none and leaves every connection's status
  and channel alone; with the connection stored and a player present the call changes
  nothing at all. An existing connection to another channel, or a destroyed or disconnected
  one, ends destroyed, and when the new connection becomes ready the call returns a
  different connection, ready and stored for the guild.
\<close>

lemma join_validated_target:
  assumes "validateChannel gd ch = Inr chan"
  shows "(\<forall>c. existingConnection s g = Some c \<and> sameChannelHealthy s c ch
      \<longrightarrow>
        (\<exists>p. fst (joinVoiceChannel s g ch gd w) = Inr (c, p))
        \<and> map_of (connections (snd (joinVoiceChannel s g ch gd w))) g = Some c
        \<and> next_conn (snd (joinVoiceChannel s g ch gd w)) = next_conn s
        \<and> voice_registry (snd (joinVoiceChannel s g ch gd w)) = voice_registry s
        \<and> (\<forall>c'. conn_status (voice_connections (snd (joinVoiceChannel s g ch gd w)) c')
                  = conn_status (voice_connections s c')
              \<and> join_channel (voice_connections (snd (joinVoiceChannel s g ch gd w)) c')
                  = join_channel (voice_connections s c'))
        \<and> (map_of (connections s) g = Some c \<and> players s g \<noteq> None
              \<longrightarrow> snd (joinVoiceChannel s g ch gd w) = s))
   \<and> (\<forall>c. existingConnection s g = Some c \<and> \<not> sameChannelHealthy s c ch
       \<and> c < next_conn s \<longrightarrow>
        conn_status (voice_connections (snd (joinVoiceChannel s g ch gd w)) c) = Destroyed
        \<and> (w = ReachesReady \<longrightarrow>
             (\<exists>c' p. fst (joinVoiceChannel s g ch gd w) = Inr (c', p) \<and> c' \<noteq> c
                \<and> map_of (connections (snd (joinVoiceChannel s g ch gd w))) g = Some c'
                \<and> conn_status (voice_connections (snd (joinVoiceChannel s g ch gd w)) c')
                    = Ready)))"
proof (intro conjI allI impI)
  fix c assume a: "existingConnection s g = Some c \<and> sameChannelHealthy s c ch"
  then have j: "joinVoiceChannel s g ch gd w = reuseConnection s g c"
    using join_reuse[OF assms] by simp
  note r = reuse_effect[of s g c, OF a[THEN conjunct1]]
  show "\<exists>p. fst (joinVoiceChannel s g ch gd w) = Inr (c, p)"
    unfolding j by (rule r(1))
  show "map_of (connections (snd (joinVoiceChannel s g ch gd w))) g = Some c"
    unfolding j by (rule r(2))
  show "next_conn (snd (joinVoiceChannel s g ch gd w)) = next_conn s"
    unfolding j by (rule r(3))
  show "voice_registry (snd (joinVoiceChannel s g ch gd w)) = voice_registry s"
    unfolding j by (rule r(4))
  show "conn_status (voice_connections (snd (joinVoiceChannel s g ch gd w)) c')
                  = conn_status (voice_connections s c')" for c'
    unfolding j by (rule r(5))
  show "join_channel (voice_connections (snd (joinVoiceChannel s g ch gd w)) c')
                  = join_channel (voice_connections s c')" for c'
    unfolding j by (rule r(6))
  show "snd (joinVoiceChannel s g ch gd w) = s"
    if "map_of (connections s) g = Some c \<and> players s g \<noteq> None"
    unfolding j using that by (intro r(7)) simp_all
next
  fix c
  assume a: "existingConnection s g = Some c \<and> \<not> sameChannelHealthy s c ch \<and> c <
      next_conn s"
  then have t: "join_try s g ch gd w = replaceConnection s g ch chan w" for w
    using assms by (simp add: join_try_def)
  note e = replace_effect[of s g c, OF a[THEN conjunct1] a[THEN conjunct2, THEN conjunct2]]
  show "conn_status (voice_connections (snd (joinVoiceChannel s g ch gd w)) c) = Destroyed"
    using e(1)[of ch chan w]
    by (auto simp: joinVoiceChannel_def t case_prod_beta cleanup_heap split: sum.splits)
  assume w: "w = ReachesReady"
  show "\<exists>c' p. fst (joinVoiceChannel s g ch gd w) = Inr (c', p) \<and> c' \<noteq> c
                \<and> map_of (connections (snd (joinVoiceChannel s g ch gd w))) g = Some c'
                \<and> conn_status (voice_connections (snd (joinVoiceChannel s g ch gd w)) c')
                    = Ready"
    using e(2)[of ch chan]
    by (auto simp: joinVoiceChannel_def t w case_prod_beta split: sum.splits)
qed

section \<open>The example runs, evaluated\<close>

lemma validate_examples:
  "validateChannel example_guild ''voice''
     = Inr \<lparr>channel_type = 2, permissionsFor = Some {Connect, Speak}\<rparr>"
  "validateChannel example_guild ''other''
     = Inr \<lparr>channel_type = 2, permissionsFor = Some {Connect, Speak}\<rparr>"
  "validateChannel example_guild ''muted'' = Inl PermissionDenied"
  "validateChannel example_guild ''text'' = Inl InvalidChannel"
  "validateChannel example_guild ''nowhere'' = Inl InvalidChannel"
  by (simp_all add: validateChannel_def example_guild_def)

lemma facts_joined:
  "existingConnection joined ''guild'' = Some 0"
  "map_of (connections joined) ''guild'' = Some 0"
  "sameChannelHealthy joined 0 ''voice''"
  "\<not> sameChannelHealthy joined 0 ''other''"
  "next_conn joined = 1"
  "players joined ''guild'' \<noteq> None"
  "conn_status (voice_connections joined 0) = Ready"
  by (simp_all add: joined_def model_defs)

lemma facts_streaming2:
  "existingConnection streaming ''guild'' = Some 0"
  "hasConnection streaming ''guild''"
  "conn_status (voice_connections streaming 0) = Ready"
  by (simp_all add: streaming_def model_defs hasConnection_def)

lemma facts_initial:
  "existingConnection initial ''guild'' = None"
  "next_conn initial = 0"
  "no_session initial ''guild''"
  "getVoiceConnection initial ''guild'' = None"
  by (simp_all add: initial_def existingConnection_def no_session_def hasConnection_def)

theorem join_failure_rolls_back_witness:
  "hasConnection streaming ''guild''
   \<and> fst (joinVoiceChannel streaming ''guild'' ''nowhere'' example_guild ReachesReady)
       = Inl InvalidChannel
   \<and> no_session (snd (joinVoiceChannel streaming ''guild'' ''nowhere'' example_guild
       ReachesReady))
       ''guild''
   \<and> fst (joinVoiceChannel streaming ''guild'' ''text'' example_guild ReachesReady)
       = Inl InvalidChannel
   \<and> fst (joinVoiceChannel streaming ''guild'' ''muted'' example_guild ReachesReady)
       = Inl PermissionDenied
   \<and> \<not> hasConnection
         (snd (joinVoiceChannel streaming ''guild'' ''muted'' example_guild ReachesReady)) ''guild''
   \<and> fst (joinVoiceChannel initial ''guild'' ''voice'' example_guild TimesOut)
       = Inl (ConnectionTimeout 10000)
   \<and> no_session (snd (joinVoiceChannel initial ''guild'' ''voice'' example_guild TimesOut))
       ''guild''
   \<and> conn_status (voice_connections
         (snd (joinVoiceChannel initial ''guild'' ''voice'' example_guild TimesOut)) 0) = Destroyed
   \<and> getVoiceConnection (snd (joinVoiceChannel initial ''guild'' ''voice'' example_guild
       TimesOut))
         ''guild'' = None"
proof -
  note nowhere = join_failure_rolls_back[of streaming "''guild''" "''nowhere''" example_guild
      ReachesReady]
  note textual = join_failure_rolls_back[of streaming "''guild''" "''text''" example_guild
      ReachesReady]
  note muted = join_failure_rolls_back[of streaming "''guild''" "''muted''" example_guild
      ReachesReady]
  note timeout = join_failure_rolls_back[of initial "''guild''" "''voice''" example_guild TimesOut]
  have a: "fst (joinVoiceChannel streaming ''guild'' ''nowhere'' example_guild ReachesReady)
       = Inl InvalidChannel"
    using nowhere[THEN conjunct2, THEN conjunct1, rule_format, OF validate_examples(5)] .
  have a': "no_session (snd (joinVoiceChannel streaming ''guild'' ''nowhere'' example_guild
       ReachesReady)) ''guild''"
    using nowhere[THEN conjunct1, rule_format, OF a] by (rule conjunct1)
  have b: "fst (joinVoiceChannel streaming ''guild'' ''text'' example_guild ReachesReady)
       = Inl InvalidChannel"
    using textual[THEN conjunct2, THEN conjunct1, rule_format, OF validate_examples(4)] .
  have c: "fst (joinVoiceChannel streaming ''guild'' ''muted'' example_guild ReachesReady)
       = Inl PermissionDenied"
    using muted[THEN conjunct2, THEN conjunct1, rule_format, OF validate_examples(3)] .
  have c': "\<not> hasConnection
         (snd (joinVoiceChannel streaming ''guild'' ''muted'' example_guild ReachesReady))
             ''guild''"
    using muted[THEN conjunct1, rule_format, OF c] by (elim conjE)
  have h: "validateChannel example_guild ''voice''
      = Inr \<lparr>channel_type = 2, permissionsFor = Some {Connect, Speak}\<rparr>
      \<and> existingConnection initial ''guild'' = None \<and> TimesOut = TimesOut"
    using validate_examples(1) facts_initial(1) by simp
  note d0 = timeout[THEN conjunct2, THEN conjunct2, THEN conjunct2, THEN conjunct2, rule_format,
      OF h]
  have d: "fst (joinVoiceChannel initial ''guild'' ''voice'' example_guild TimesOut)
       = Inl (ConnectionTimeout 10000)
     \<and> conn_status (voice_connections
         (snd (joinVoiceChannel initial ''guild'' ''voice'' example_guild TimesOut)) 0) = Destroyed
     \<and> getVoiceConnection (snd (joinVoiceChannel initial ''guild'' ''voice'' example_guild
         TimesOut))
         ''guild'' = None"
    using d0 facts_initial(2) by simp
  have d': "no_session (snd (joinVoiceChannel initial ''guild'' ''voice'' example_guild TimesOut))
      ''guild''"
    using timeout[THEN conjunct1, rule_format, OF d[THEN conjunct1]] by (rule conjunct1)
  show ?thesis
    using a a' b c c' d d' facts_streaming2(2) by (intro conjI) (elim conjE, assumption)+
qed

lemma legacy_heap:
  "conn_status (voice_connections (legacy_cleanupGuildResources s g) c')
     = (if existingConnection s g = Some c' then Destroyed else conn_status (voice_connections s
         c'))"
  "next_conn (legacy_cleanupGuildResources s g) = next_conn s"
  "map_of (connections (legacy_cleanupGuildResources s g)) g'
     = (if g' = g then None else map_of (connections s) g')"
  by (auto simp: legacy_cleanupGuildResources_def Let_def conn_destroy_heap existingConnection_def
      split: option.splits)

text \<open>
  The earlier manager's \<^verbatim>\<open>joinVoiceChannel\<close> never reuses: whatever connection the guild
  had is destroyed, also a healthy one to the requested channel.
\<close>

lemma legacy_join_always_rebuilds:
  assumes "existingConnection s g = Some c" "c < next_conn s"
  shows "conn_status (voice_connections (snd (legacy_joinVoiceChannel s g ch w)) c) = Destroyed"
proof -
  define s1 where "s1 = legacy_cleanupGuildResources s g"
  define c' where "c' = fst (lib_joinVoiceChannel s1 g ch)"
  have d: "conn_status (voice_connections s1 c) = Destroyed" "c < next_conn s1"
    using assms by (simp_all add: s1_def legacy_heap)
  have ne: "c' \<noteq> c"
    using lib_join_conn(4)[OF d, of g ch] by (simp add: c'_def)
  have k: "conn_status (voice_connections (snd (lib_joinVoiceChannel s1 g ch)) c) = Destroyed"
    using lib_join_conn(3)[of c s1 g ch] ne d by (simp add: c'_def)
  show ?thesis
    using ne k entersState_heap(1)[of c c']
    by (simp add: legacy_joinVoiceChannel_def Let_def case_prod_beta createAudioPlayer_def
        s1_def[symmetric] c'_def[symmetric] legacy_heap legacy_setupListeners_def
        split: sum.splits)
qed

theorem volume_survives_cleanup_witness:
  "volumes tuned ''guild'' = Some (Fin (1 / 2))
   \<and> volumes (snd (leaveVoiceChannel tuned ''guild'')) ''guild'' = Some (Fin (1 / 2))
   \<and> \<not> hasConnection (snd (leaveVoiceChannel tuned ''guild'')) ''guild''
   \<and> resource_volume
        (snd (playStream
               (snd (joinVoiceChannel (snd (leaveVoiceChannel tuned ''guild'')) ''guild'' ''voice''
                      example_guild ReachesReady))
               ''guild'' (RadioRequest ''http://radio.example/live'' []) Spawns)) ''guild''
       = Some (Fin (1 / 2))"
proof -
  note t = volume_survives_cleanup[where s = tuned and g = "''guild''" and ch = "''voice''"
      and gd = example_guild and w = ReachesReady and sp = Spawns
      and req = "RadioRequest ''http://radio.example/live'' []"]
  have sp: "\<not> spawn_throws Spawns
      (ffmpeg_args (request_url (RadioRequest ''http://radio.example/live'' [])))"
    by (simp add: spawn_throws_def ffmpeg_args_def)
  obtain c p where j:
    "fst (joinVoiceChannel (snd (leaveVoiceChannel tuned ''guild'')) ''guild'' ''voice''
            example_guild ReachesReady) = Inr (c, p)"
    using join_succeeds[OF validate_examples(1), of "snd (leaveVoiceChannel tuned ''guild'')"
        "''guild''"]
    by blast
  have a: "volumes (snd (leaveVoiceChannel tuned ''guild'')) ''guild'' = Some (Fin (1 / 2))"
    using t[THEN conjunct2, THEN conjunct1] tuned_volume by simp
  have b: "resource_volume
        (snd (playStream
               (snd (joinVoiceChannel (snd (leaveVoiceChannel tuned ''guild'')) ''guild'' ''voice''
                      example_guild ReachesReady))
               ''guild'' (RadioRequest ''http://radio.example/live'' []) Spawns)) ''guild''
       = Some (getVolume tuned ''guild'')"
    using t[THEN conjunct2, THEN conjunct2, THEN conjunct2, THEN conjunct2, THEN conjunct2,
        THEN conjunct2, THEN conjunct2, THEN conjunct2, THEN conjunct2, rule_format,
        OF conjI[OF j sp]] .
  have c: "\<not> hasConnection (snd (leaveVoiceChannel tuned ''guild'')) ''guild''"
    using cleanupGuildResources_no_session[of tuned "''guild''"]
    by (simp add: leaveVoiceChannel_def no_session_def)
  show ?thesis
    using a b c tuned_volume by (simp add: getVolume_def)
qed

theorem leave_releases_everything_witness:
  "existingConnection streaming ''guild'' = Some 0
   \<and> ffmpegProcesses streaming ''guild'' = Some 0
   \<and> fst (leaveVoiceChannel streaming ''guild'')
   \<and> no_session (snd (leaveVoiceChannel streaming ''guild'')) ''guild''
   \<and> conn_status (voice_connections (snd (leaveVoiceChannel streaming ''guild'')) 0) =
       Destroyed
   \<and> \<not> proc_unsignalled (processes (snd (leaveVoiceChannel streaming ''guild'')) 0)
   \<and> fst (leaveVoiceChannel (snd (leaveVoiceChannel streaming ''guild'')) ''guild'')
   \<and> no_session initial ''guild''
   \<and> fst (leaveVoiceChannel initial ''guild'') = True
   \<and> (\<exists>c p. fst (joinVoiceChannel (snd (leaveVoiceChannel initial ''guild''))
       ''guild'' ''voice''
                    example_guild ReachesReady) = Inr (c, p))
   \<and> (\<exists>c p. fst (joinVoiceChannel (snd (leaveVoiceChannel streaming ''guild''))
       ''guild'' ''voice''
                    example_guild ReachesReady) = Inr (c, p))
   \<and> hasConnection
        (snd (joinVoiceChannel (snd (leaveVoiceChannel streaming ''guild'')) ''guild'' ''voice''
                example_guild ReachesReady)) ''guild''"
proof -
  note t = leave_releases_everything[of streaming "''guild''" example_guild "''voice''"]
  note i = leave_releases_everything[of initial "''guild''" example_guild "''voice''"]
  have a: "conn_status (voice_connections (snd (leaveVoiceChannel streaming ''guild'')) 0) =
      Destroyed"
    using t[THEN conjunct2, THEN conjunct2, THEN conjunct1, rule_format, OF facts_streaming2(1)] .
  have b: "\<not> proc_unsignalled (processes (snd (leaveVoiceChannel streaming ''guild'')) 0)"
    using t[THEN conjunct2, THEN conjunct2, THEN conjunct2, THEN conjunct1, rule_format,
        OF ffmpeg_streaming] .
  have c: "fst (leaveVoiceChannel initial ''guild'') = True"
    using i[THEN conjunct2, THEN conjunct2, THEN conjunct2, THEN conjunct2, THEN conjunct1,
        rule_format, OF facts_initial(3)] .
  have c': "\<exists>c p. fst (joinVoiceChannel (snd (leaveVoiceChannel initial ''guild''))
      ''guild''
                    ''voice'' example_guild ReachesReady) = Inr (c, p)"
    using i[THEN conjunct2, THEN conjunct2, THEN conjunct2, THEN conjunct2, THEN conjunct2,
        THEN conjunct2, THEN conjunct2, rule_format, OF validate_examples(1)]
    by (rule conjunct1)
  note rest = t[THEN conjunct2, THEN conjunct2, THEN conjunct2, THEN conjunct2, THEN conjunct2]
  have d: "(\<exists>c p. fst (joinVoiceChannel (snd (leaveVoiceChannel streaming ''guild''))
      ''guild''
                    ''voice'' example_guild ReachesReady) = Inr (c, p))
      \<and> hasConnection
        (snd (joinVoiceChannel (snd (leaveVoiceChannel streaming ''guild'')) ''guild'' ''voice''
                example_guild ReachesReady)) ''guild''"
    using rest[THEN conjunct2, THEN conjunct2, rule_format, OF validate_examples(1)] .
  show ?thesis
    using a b c c' d t[THEN conjunct1] t[THEN conjunct2, THEN conjunct1] rest[THEN conjunct1]
      facts_streaming2(1) ffmpeg_streaming facts_initial(3)
    by (intro conjI) (elim conjE, assumption)+
qed

section \<open>Joining where a connection exists\<close>

lemma join_refused_target:
  assumes "validateChannel gd ch = Inl e"
  shows "fst (joinVoiceChannel s g ch gd w) = Inl e"
    and "snd (joinVoiceChannel s g ch gd w) = cleanupGuildResources s g"
    and "no_session (snd (joinVoiceChannel s g ch gd w)) g"
    and "existingConnection s g = Some c
           \<Longrightarrow> conn_status (voice_connections (snd (joinVoiceChannel s g ch gd w))
               c) = Destroyed"
  using assms
  by (simp_all add: joinVoiceChannel_def join_try_def cleanupGuildResources_no_session
      cleanupGuildResources_destroys)

lemma legacy_join_returns_other:
  assumes "existingConnection s g = Some c" "c < next_conn s"
  shows "\<exists>c' p. fst (legacy_joinVoiceChannel s g ch ReachesReady) = Inr (c', p) \<and> c'
      \<noteq> c"
proof -
  define s1 where "s1 = legacy_cleanupGuildResources s g"
  define c' where "c' = fst (lib_joinVoiceChannel s1 g ch)"
  have d: "conn_status (voice_connections s1 c) = Destroyed" "c < next_conn s1"
    using assms by (simp_all add: s1_def legacy_heap)
  have ne: "c' \<noteq> c"
    using lib_join_conn(4)[OF d, of g ch] by (simp add: c'_def)
  show ?thesis
    using ne
    by (simp add: legacy_joinVoiceChannel_def Let_def case_prod_beta createAudioPlayer_def
        s1_def[symmetric] c'_def[symmetric] entersState_Ready_def)
qed

text \<open>
  Claim C3, as the code has it. In the unified manager, for a target that passes the
  validation: when the guild's existing connection (the stored one, else the one the voice
  library tracks) points at the requested channel and is neither destroyed nor
  disconnected, \<^verbatim>\<open>joinVoiceChannel\<close> returns that very connection, creates no connection,
  destroys none and leaves every connection's status and channel alone; with the
  connection stored and a player present the call changes nothing at all. An existing
  connection to another channel, or a destroyed or disconnected one, ends destroyed, and
  when the new connection becomes ready the call returns a different connection, ready and
  stored for the guild. For a target that fails the validation the call raises the
  validation's error, and the guild's existing connection, healthy or not, ends destroyed
  with nothing of the session left. The earlier manager never reuses: whatever connection
  the guild had ends destroyed, and when the new connection becomes ready the call returns
  a different one.
\<close>

theorem join_reuses_healthy_connection:
  "(\<forall>chan c. validateChannel gd ch = Inr chan \<and> existingConnection s g = Some c
        \<and> sameChannelHealthy s c ch \<longrightarrow>
        (\<exists>p. fst (joinVoiceChannel s g ch gd w) = Inr (c, p))
        \<and> map_of (connections (snd (joinVoiceChannel s g ch gd w))) g = Some c
        \<and> next_conn (snd (joinVoiceChannel s g ch gd w)) = next_conn s
        \<and> voice_registry (snd (joinVoiceChannel s g ch gd w)) = voice_registry s
        \<and> (\<forall>c'. conn_status (voice_connections (snd (joinVoiceChannel s g ch gd w)) c')
                  = conn_status (voice_connections s c')
              \<and> join_channel (voice_connections (snd (joinVoiceChannel s g ch gd w)) c')
                  = join_channel (voice_connections s c'))
        \<and> (map_of (connections s) g = Some c \<and> players s g \<noteq> None
              \<longrightarrow> snd (joinVoiceChannel s g ch gd w) = s))
   \<and> (\<forall>chan c. validateChannel gd ch = Inr chan \<and> existingConnection s g = Some c
        \<and> \<not> sameChannelHealthy s c ch \<and> c < next_conn s \<longrightarrow>
        conn_status (voice_connections (snd (joinVoiceChannel s g ch gd w)) c) = Destroyed
        \<and> (w = ReachesReady \<longrightarrow>
             (\<exists>c' p. fst (joinVoiceChannel s g ch gd w) = Inr (c', p) \<and> c' \<noteq> c
                \<and> map_of (connections (snd (joinVoiceChannel s g ch gd w))) g = Some c'
                \<and> conn_status (voice_connections (snd (joinVoiceChannel s g ch gd w)) c')
                    = Ready)))
   \<and> (\<forall>e c. validateChannel gd ch = Inl e \<and> existingConnection s g = Some c
       \<longrightarrow>
        fst (joinVoiceChannel s g ch gd w) = Inl e
        \<and> conn_status (voice_connections (snd (joinVoiceChannel s g ch gd w)) c) = Destroyed
        \<and> no_session (snd (joinVoiceChannel s g ch gd w)) g)
   \<and> (\<forall>c. existingConnection s g = Some c \<and> c < next_conn s \<longrightarrow>
        conn_status (voice_connections (snd (legacy_joinVoiceChannel s g ch w)) c) = Destroyed
        \<and> (\<exists>c' p. fst (legacy_joinVoiceChannel s g ch ReachesReady) = Inr (c', p)
            \<and> c' \<noteq> c))"
proof (intro conjI allI impI)
  fix chan c
  assume a: "validateChannel gd ch = Inr chan \<and> existingConnection s g = Some c
        \<and> sameChannelHealthy s c ch"
  note v = join_validated_target[OF a[THEN conjunct1], of s g w, THEN conjunct1, rule_format,
      OF a[THEN conjunct2]]
  show "\<exists>p. fst (joinVoiceChannel s g ch gd w) = Inr (c, p)"
    using v by (rule conjunct1)
  show "map_of (connections (snd (joinVoiceChannel s g ch gd w))) g = Some c"
    using v[THEN conjunct2] by (rule conjunct1)
  show "next_conn (snd (joinVoiceChannel s g ch gd w)) = next_conn s"
    using v[THEN conjunct2, THEN conjunct2] by (rule conjunct1)
  show "voice_registry (snd (joinVoiceChannel s g ch gd w)) = voice_registry s"
    using v[THEN conjunct2, THEN conjunct2, THEN conjunct2] by (rule conjunct1)
  note h = v[THEN conjunct2, THEN conjunct2, THEN conjunct2, THEN conjunct2, THEN conjunct1,
      rule_format]
  show "conn_status (voice_connections (snd (joinVoiceChannel s g ch gd w)) c')
                  = conn_status (voice_connections s c')" for c'
    using h[of c'] by (rule conjunct1)
  show "join_channel (voice_connections (snd (joinVoiceChannel s g ch gd w)) c')
                  = join_channel (voice_connections s c')" for c'
    using h[of c'] by (rule conjunct2)
  show "snd (joinVoiceChannel s g ch gd w) = s"
    if "map_of (connections s) g = Some c \<and> players s g \<noteq> None"
    using v[THEN conjunct2, THEN conjunct2, THEN conjunct2, THEN conjunct2, THEN conjunct2,
        rule_format, OF that] .
next
  fix chan c
  assume a: "validateChannel gd ch = Inr chan \<and> existingConnection s g = Some c
        \<and> \<not> sameChannelHealthy s c ch \<and> c < next_conn s"
  note v = join_validated_target[OF a[THEN conjunct1], of s g w, THEN conjunct2, rule_format,
      OF a[THEN conjunct2]]
  show "conn_status (voice_connections (snd (joinVoiceChannel s g ch gd w)) c) = Destroyed"
    using v by (rule conjunct1)
  assume "w = ReachesReady"
  then show "\<exists>c' p. fst (joinVoiceChannel s g ch gd w) = Inr (c', p) \<and> c' \<noteq> c
                \<and> map_of (connections (snd (joinVoiceChannel s g ch gd w))) g = Some c'
                \<and> conn_status (voice_connections (snd (joinVoiceChannel s g ch gd w)) c')
                    = Ready"
    using v[THEN conjunct2] by blast
next
  fix e c
  assume a: "validateChannel gd ch = Inl e \<and> existingConnection s g = Some c"
  show "fst (joinVoiceChannel s g ch gd w) = Inl e"
    using a by (simp add: join_refused_target(1))
  show "conn_status (voice_connections (snd (joinVoiceChannel s g ch gd w)) c) = Destroyed"
    using a by (simp add: join_refused_target(4))
  show "no_session (snd (joinVoiceChannel s g ch gd w)) g"
    using a by (simp add: join_refused_target(3))
next
  fix c
  assume a: "existingConnection s g = Some c \<and> c < next_conn s"
  show "conn_status (voice_connections (snd (legacy_joinVoiceChannel s g ch w)) c) = Destroyed"
    using a by (simp add: legacy_join_always_rebuilds)
  show "\<exists>c' p. fst (legacy_joinVoiceChannel s g ch ReachesReady) = Inr (c', p) \<and> c'
      \<noteq> c"
    using legacy_join_returns_other[OF a[THEN conjunct1] a[THEN conjunct2]] .
qed

lemma validate_revoked: "validateChannel revoked_guild ''voice'' = Inl PermissionDenied"
  by (simp add: validateChannel_def revoked_guild_def)

lemmas legacy_defs = legacy_joined_def legacy_joinVoiceChannel_def
  legacy_cleanupGuildResources_def legacy_setupListeners_def CONNECTION_TIMEOUT_def

lemma facts_legacy_joined:
  "existingConnection legacy_joined ''guild'' = Some 0"
  "sameChannelHealthy legacy_joined 0 ''voice''"
  "conn_status (voice_connections legacy_joined 0) = Ready"
  "next_conn legacy_joined = 1"
  by (simp_all add: legacy_defs model_defs)


lemma hasConnection_no_session: "no_session s g \<Longrightarrow> \<not> hasConnection s g"
  by (simp add: no_session_def)

theorem join_reuses_healthy_connection_witness:
  "existingConnection joined ''guild'' = Some 0
   \<and> sameChannelHealthy joined 0 ''voice''
   \<and> (\<exists>p. fst (joinVoiceChannel joined ''guild'' ''voice'' example_guild TimesOut) =
       Inr (0, p))
   \<and> snd (joinVoiceChannel joined ''guild'' ''voice'' example_guild TimesOut) = joined
   \<and> \<not> sameChannelHealthy joined 0 ''other''
   \<and> conn_status (voice_connections
         (snd (joinVoiceChannel joined ''guild'' ''other'' example_guild ReachesReady)) 0) =
             Destroyed
   \<and> (\<exists>c' p. fst (joinVoiceChannel joined ''guild'' ''other'' example_guild
       ReachesReady)
                  = Inr (c', p)
          \<and> c' \<noteq> 0
          \<and> map_of (connections
                (snd (joinVoiceChannel joined ''guild'' ''other'' example_guild ReachesReady)))
                ''guild'' = Some c'
          \<and> conn_status (voice_connections
                (snd (joinVoiceChannel joined ''guild'' ''other'' example_guild ReachesReady)) c')
              = Ready)
   \<and> fst (joinVoiceChannel joined ''guild'' ''voice'' revoked_guild ReachesReady)
       = Inl PermissionDenied
   \<and> conn_status (voice_connections
         (snd (joinVoiceChannel joined ''guild'' ''voice'' revoked_guild ReachesReady)) 0)
       = Destroyed
   \<and> existingConnection legacy_joined ''guild'' = Some 0
   \<and> sameChannelHealthy legacy_joined 0 ''voice''
   \<and> conn_status (voice_connections
         (snd (legacy_joinVoiceChannel legacy_joined ''guild'' ''voice'' ReachesReady)) 0)
       = Destroyed
   \<and> (\<exists>c' p. fst (legacy_joinVoiceChannel legacy_joined ''guild'' ''voice''
       ReachesReady)
                  = Inr (c', p) \<and> c' \<noteq> 0)"
proof -
  note same = join_reuses_healthy_connection[of example_guild "''voice''" joined "''guild''"
      TimesOut, THEN conjunct1, rule_format, of _ 0]
  note other = join_reuses_healthy_connection[of example_guild "''other''" joined "''guild''"
      ReachesReady, THEN conjunct2, THEN conjunct1, rule_format, of _ 0]
  note refused = join_reuses_healthy_connection[of revoked_guild "''voice''" joined "''guild''"
      ReachesReady, THEN conjunct2, THEN conjunct2, THEN conjunct1, rule_format,
      of PermissionDenied 0]
  note legacy = join_reuses_healthy_connection[of _ "''voice''" legacy_joined "''guild''"
      ReachesReady, THEN conjunct2, THEN conjunct2, THEN conjunct2, rule_format, of 0]
  have h1: "validateChannel example_guild ''voice''
        = Inr \<lparr>channel_type = 2, permissionsFor = Some {Connect, Speak}\<rparr>
      \<and> existingConnection joined ''guild'' = Some 0 \<and> sameChannelHealthy joined 0
          ''voice''"
    using validate_examples(1) facts_joined(1,3) by simp
  have h2: "validateChannel example_guild ''other''
        = Inr \<lparr>channel_type = 2, permissionsFor = Some {Connect, Speak}\<rparr>
      \<and> existingConnection joined ''guild'' = Some 0 \<and> \<not> sameChannelHealthy joined
          0 ''other''
      \<and> 0 < next_conn joined"
    using validate_examples(2) facts_joined(1,4,5) by simp
  have h3: "map_of (connections joined) ''guild'' = Some 0 \<and> players joined ''guild''
      \<noteq> None"
    using facts_joined(2,6) by simp
  have h4: "validateChannel revoked_guild ''voice'' = Inl PermissionDenied
      \<and> existingConnection joined ''guild'' = Some 0"
    using validate_revoked facts_joined(1) by simp
  have h5: "existingConnection legacy_joined ''guild'' = Some 0 \<and> 0 < next_conn legacy_joined"
    using facts_legacy_joined(1,4) by simp
  note a = same[OF h1]
  note b = other[OF h2]
  note c = refused[OF h4]
  note d = legacy[OF h5]
  have a1: "\<exists>p. fst (joinVoiceChannel joined ''guild'' ''voice'' example_guild TimesOut) =
      Inr (0, p)"
    using a by (rule conjunct1)
  have a2: "snd (joinVoiceChannel joined ''guild'' ''voice'' example_guild TimesOut) = joined"
    using a h3 by blast
  have b1: "conn_status (voice_connections
         (snd (joinVoiceChannel joined ''guild'' ''other'' example_guild ReachesReady)) 0) =
             Destroyed"
    using b by (rule conjunct1)
  have b2: "\<exists>c' p. fst (joinVoiceChannel joined ''guild'' ''other'' example_guild
      ReachesReady)
                  = Inr (c', p)
          \<and> c' \<noteq> 0
          \<and> map_of (connections
                (snd (joinVoiceChannel joined ''guild'' ''other'' example_guild ReachesReady)))
                ''guild'' = Some c'
          \<and> conn_status (voice_connections
                (snd (joinVoiceChannel joined ''guild'' ''other'' example_guild ReachesReady)) c')
              = Ready"
    using b[THEN conjunct2] by simp
  have c1: "fst (joinVoiceChannel joined ''guild'' ''voice'' revoked_guild ReachesReady)
       = Inl PermissionDenied"
    using c by (rule conjunct1)
  have c2: "conn_status (voice_connections
         (snd (joinVoiceChannel joined ''guild'' ''voice'' revoked_guild ReachesReady)) 0)
       = Destroyed"
    using c[THEN conjunct2] by (rule conjunct1)
  have d1: "conn_status (voice_connections
         (snd (legacy_joinVoiceChannel legacy_joined ''guild'' ''voice'' ReachesReady)) 0)
       = Destroyed"
    using d by (rule conjunct1)
  have d2: "\<exists>c' p. fst (legacy_joinVoiceChannel legacy_joined ''guild'' ''voice''
      ReachesReady)
                  = Inr (c', p) \<and> c' \<noteq> 0"
    using d by (rule conjunct2)
  show ?thesis
    using h1 h2 a1 a2 b1 b2 c1 c2 d1 d2 facts_legacy_joined(1,2)
    by (intro conjI) (elim conjE, assumption)+
qed

text \<open>
  Claim C3 as stated fails. In the unified manager a healthy connection to the requested
  channel is destroyed, and nothing is built in its place, when the target no longer passes
  the validation; in the earlier manager, which the claim cites as well, a healthy
  connection to the requested channel is destroyed and another one is returned.
\<close>

theorem healthy_connection_torn_down:
  "existingConnection joined ''guild'' = Some 0
   \<and> sameChannelHealthy joined 0 ''voice''
   \<and> fst (joinVoiceChannel joined ''guild'' ''voice'' revoked_guild ReachesReady)
       = Inl PermissionDenied
   \<and> conn_status (voice_connections
         (snd (joinVoiceChannel joined ''guild'' ''voice'' revoked_guild ReachesReady)) 0)
       = Destroyed
   \<and> \<not> hasConnection
         (snd (joinVoiceChannel joined ''guild'' ''voice'' revoked_guild ReachesReady)) ''guild''
   \<and> existingConnection legacy_joined ''guild'' = Some 0
   \<and> sameChannelHealthy legacy_joined 0 ''voice''
   \<and> fst (legacy_joinVoiceChannel legacy_joined ''guild'' ''voice'' ReachesReady) = Inr (1, 1)
   \<and> conn_status (voice_connections
         (snd (legacy_joinVoiceChannel legacy_joined ''guild'' ''voice'' ReachesReady)) 0)
       = Destroyed"
proof -
  note r = join_refused_target[OF validate_revoked, where s = joined and g = "''guild''"
      and w = ReachesReady]
  have l1: "fst (legacy_joinVoiceChannel legacy_joined ''guild'' ''voice'' ReachesReady)
      = Inr (1, 1)"
    by (simp add: legacy_defs model_defs)
  have l2: "conn_status (voice_connections
         (snd (legacy_joinVoiceChannel legacy_joined ''guild'' ''voice'' ReachesReady)) 0)
       = Destroyed"
    using legacy_join_always_rebuilds[where s = legacy_joined and g = "''guild''" and c = 0
        and ch = "''voice''" and w = ReachesReady]
      facts_legacy_joined(1,4) by simp
  show ?thesis
    using r(1) r(4)[OF facts_joined(1)] hasConnection_no_session[OF r(3)] l1 l2
      facts_joined(1,3) facts_legacy_joined(1,2)
    by (intro conjI)
qed

section \<open>Volume steps\<close>

lemma volumes_fire [simp]: "volumes (fire a sp s) = volumes s"
  by (auto simp: fire_def restartRadio_def playRadio_def
      split: timer_action.splits option.splits stream_info.splits)

lemma volumes_controls [simp]:
  "volumes (snd (pauseAudio s g)) = volumes s"
  "volumes (snd (resumeAudio s g)) = volumes s"
  "volumes (snd (stopAudio s g)) = volumes s"
  "volumes (player_idle s g) = volumes s"
  "volumes (errorListener s g) = volumes s"
  by (auto simp: pauseAudio_cases resumeAudio_cases stopAudio_cases stopCurrentPlayback_def
      player_idle_def idleListener_def errorListener_def Let_def
      split: option.splits player_state.splits)

lemma volumes_step:
  "volumes (step a s) = volumes s
   \<or> (\<exists>g v. volumes (step a s) = (volumes s)(g \<mapsto> Math_max MIN_VOLUME (Math_min
       MAX_VOLUME v)))
   \<or> volumes (step a s) = Map.empty"
  by (cases a)
     (auto simp: volumes_setVolume increaseVolume_def decreaseVolume_def
       leaveVoiceChannel_def volumes_shutdown
       disconnectedListener_def destroyedListener_def update_connection_def)

lemma stored_volumes_valid:
  "volumes (run acts initial) g = Some v \<Longrightarrow> volume_valid v"
proof (induction acts arbitrary: g v rule: rev_induct)
  case Nil
  then show ?case by (simp add: run_def initial_def)
next
  case (snoc a acts)
  have r: "run (acts @ [a]) initial = step a (run acts initial)"
    by (simp add: run_def)
  show ?case
    using snoc.prems snoc.IH volumes_step[of a "run acts initial"] clamp_valid
    unfolding r by (auto split: if_splits)
qed

text \<open>
  Claim C10. Let the current volume of a guild be the one stored for it, or 1 when none is
  stored, and let it be a value \<^verbatim>\<open>setVolume\<close> can have stored, which it is in every state
  the manager reaches. Then \<^verbatim>\<open>increaseVolume\<close> returns true and changes the volume map at
  this guild only, to \<open>min (current + 0.1) 2\<close>; \<^verbatim>\<open>decreaseVolume\<close> returns true and
  changes it to \<open>max (current - 0.1) 0\<close>; \<^verbatim>\<open>getVolume\<close> returns the current volume; with
  2 stored an increase stores exactly 2, and with 0 stored a decrease stores exactly 0.
  Here 0.1 is the double nearest to one tenth, and sums and differences are rounded to
  doubles.
\<close>

theorem volume_steps_clamped:
  assumes "current = (case volumes s g of None \<Rightarrow> Fin 1 | Some v \<Rightarrow> v)"
    and "volume_valid current"
  shows "fst (increaseVolume s g) = True
    \<and> volumes (snd (increaseVolume s g))
        = (volumes s)(g \<mapsto> Math_min (js_add current (round_double (1 / 10))) (Fin 2))
    \<and> fst (decreaseVolume s g) = True
    \<and> volumes (snd (decreaseVolume s g))
        = (volumes s)(g \<mapsto> Math_max (js_sub current (round_double (1 / 10))) (Fin 0))
    \<and> getVolume s g = current
    \<and> (volumes s g = Some (Fin 2) \<longrightarrow> volumes (snd (increaseVolume s g)) g =
        Some (Fin 2))
    \<and> (volumes s g = Some (Fin 0) \<longrightarrow> volumes (snd (decreaseVolume s g)) g =
        Some (Fin 0))
    \<and> volume_valid (case volumes (run acts initial) g of None \<Rightarrow> Fin 1 | Some v
        \<Rightarrow> v)"
proof -
  have cur: "getVolume s g = current"
    using assms(1) by (simp add: getVolume_def DEFAULT_VOLUME_def split: option.splits)
  have inc: "volumes (snd (increaseVolume s g))
      = (volumes s)(g \<mapsto> Math_min (js_add current (round_double (1 / 10))) (Fin 2))"
    using clamp_add[OF assms(2)]
    by (simp add: increaseVolume_def volumes_setVolume cur step_value MAX_VOLUME_def)
  have dec: "volumes (snd (decreaseVolume s g))
      = (volumes s)(g \<mapsto> Math_max (js_sub current (round_double (1 / 10))) (Fin 0))"
    using clamp_sub[OF assms(2)]
    by (simp add: decreaseVolume_def volumes_setVolume cur step_value MIN_VOLUME_def)
  have top: "volumes (snd (increaseVolume s g)) g = Some (Fin 2)" if "volumes s g = Some (Fin 2)"
    using inc that assms(1) add_at_max by (simp add: MAX_VOLUME_def step_value)
  have bottom: "volumes (snd (decreaseVolume s g)) g = Some (Fin 0)" if "volumes s g = Some (Fin 0)"
    using dec that assms(1) sub_at_min by (simp add: MIN_VOLUME_def step_value)
  have reach: "volume_valid (case volumes (run acts initial) g of None \<Rightarrow> Fin 1 | Some
      v \<Rightarrow> v)"
    using stored_volumes_valid[of acts g]
    by (auto simp: volume_valid_def MIN_VOLUME_def MAX_VOLUME_def split: option.splits)
  show ?thesis
    using cur inc dec top bottom reach
    by (simp add: increaseVolume_def decreaseVolume_def)
qed


lemma add_half: "js_add (Fin (1 / 2)) VOLUME_STEP = Fin (5404319552844595 / 9007199254740992)"
  unfolding VOLUME_STEP_def by code_simp

lemma sub_half: "js_sub (Fin (1 / 2)) VOLUME_STEP = Fin (3602879701896397 / 9007199254740992)"
  unfolding VOLUME_STEP_def by code_simp

lemma add_near_max:
  "js_add (Fin (8782019273372467 / 4503599627370496)) VOLUME_STEP
     = Fin (2308094809027379 / 1125899906842624)"
  unfolding VOLUME_STEP_def by code_simp

lemma step_examples:
  "Math_min (js_add (Fin (1 / 2)) (round_double (1 / 10))) (Fin 2)
     = Fin (5404319552844595 / 9007199254740992)"
  "Math_max (js_sub (Fin (1 / 2)) (round_double (1 / 10))) (Fin 0)
     = Fin (3602879701896397 / 9007199254740992)"
  "Math_min (js_add (Fin 2) (round_double (1 / 10))) (Fin 2) = Fin 2"
  "Math_max (js_sub (Fin 0) (round_double (1 / 10))) (Fin 0) = Fin 0"
  "Math_min (js_add (Fin 1) (round_double (1 / 10))) (Fin 2)
     = Fin (2476979795053773 / 2251799813685248)"
  "Math_max (js_sub (Fin 1) (round_double (1 / 10))) (Fin 0)
     = Fin (8106479329266893 / 9007199254740992)"
  "Math_min (js_add (Fin (8782019273372467 / 4503599627370496)) (round_double (1 / 10))) (Fin 2)
     = Fin 2"
  using add_at_max sub_at_min
  by (simp_all add: step_value add_half sub_half add_near_max add_default sub_default
      Math_min_def Math_max_def MAX_VOLUME_def MIN_VOLUME_def)

lemma stored_examples:
  "volumes (snd (setVolume initial ''guild'' (Fin 2))) ''guild'' = Some (Fin 2)"
  "volumes (snd (setVolume initial ''guild'' (Fin 0))) ''guild'' = Some (Fin 0)"
  "volumes (snd (setVolume initial ''guild'' (Fin (8782019273372467 / 4503599627370496))))
     ''guild'' = Some (Fin (8782019273372467 / 4503599627370496))"
  "volumes initial ''guild'' = None"
  by (simp_all add: volumes_setVolume Math_max_def Math_min_def MIN_VOLUME_def MAX_VOLUME_def
      initial_def)

lemma valid_examples:
  "volume_valid (Fin (1 / 2))" "volume_valid (Fin 2)" "volume_valid (Fin 0)"
  "volume_valid (Fin 1)" "volume_valid (Fin (8782019273372467 / 4503599627370496))"
  by (simp_all add: volume_valid_def MIN_VOLUME_def MAX_VOLUME_def)


theorem volume_steps_clamped_witness:
  "volumes tuned ''guild'' = Some (Fin (1 / 2))
   \<and> fst (increaseVolume tuned ''guild'') = True
   \<and> volumes (snd (increaseVolume tuned ''guild'')) ''guild''
       = Some (Fin (5404319552844595 / 9007199254740992))
   \<and> fst (decreaseVolume tuned ''guild'') = True
   \<and> volumes (snd (decreaseVolume tuned ''guild'')) ''guild''
       = Some (Fin (3602879701896397 / 9007199254740992))
   \<and> volumes (snd (setVolume initial ''guild'' (Fin 2))) ''guild'' = Some (Fin 2)
   \<and> fst (increaseVolume (snd (setVolume initial ''guild'' (Fin 2))) ''guild'') = True
   \<and> volumes (snd (increaseVolume (snd (setVolume initial ''guild'' (Fin 2))) ''guild''))
       ''guild''
       = Some (Fin 2)
   \<and> volumes (snd (setVolume initial ''guild'' (Fin 0))) ''guild'' = Some (Fin 0)
   \<and> volumes (snd (decreaseVolume (snd (setVolume initial ''guild'' (Fin 0))) ''guild''))
       ''guild''
       = Some (Fin 0)
   \<and> volumes (snd (increaseVolume
         (snd (setVolume initial ''guild'' (Fin (8782019273372467 / 4503599627370496))))
         ''guild'')) ''guild'' = Some (Fin 2)
   \<and> volumes initial ''guild'' = None
   \<and> getVolume initial ''guild'' = Fin 1
   \<and> volumes (snd (increaseVolume initial ''guild'')) ''guild''
       = Some (Fin (2476979795053773 / 2251799813685248))
   \<and> volumes (snd (decreaseVolume initial ''guild'')) ''guild''
       = Some (Fin (8106479329266893 / 9007199254740992))"
proof -
  note half = volume_steps_clamped[of "Fin (1 / 2)" tuned "''guild''" "[]", OF _ valid_examples(1)]
  note two = volume_steps_clamped[of "Fin 2" "snd (setVolume initial ''guild'' (Fin 2))"
      "''guild''" "[]", OF _ valid_examples(2)]
  note zero = volume_steps_clamped[of "Fin 0" "snd (setVolume initial ''guild'' (Fin 0))"
      "''guild''" "[]", OF _ valid_examples(3)]
  note one = volume_steps_clamped[of "Fin 1" initial "''guild''" "[]", OF _ valid_examples(4)]
  note near = volume_steps_clamped[of "Fin (8782019273372467 / 4503599627370496)"
      "snd (setVolume initial ''guild'' (Fin (8782019273372467 / 4503599627370496)))"
      "''guild''" "[]", OF _ valid_examples(5)]
  have a: "fst (increaseVolume tuned ''guild'') = True
      \<and> volumes (snd (increaseVolume tuned ''guild'')) ''guild''
          = Some (Fin (5404319552844595 / 9007199254740992))
      \<and> fst (decreaseVolume tuned ''guild'') = True
      \<and> volumes (snd (decreaseVolume tuned ''guild'')) ''guild''
          = Some (Fin (3602879701896397 / 9007199254740992))"
    using half by (simp add: tuned_volume step_examples)
  have b: "fst (increaseVolume (snd (setVolume initial ''guild'' (Fin 2))) ''guild'') = True
      \<and> volumes (snd (increaseVolume (snd (setVolume initial ''guild'' (Fin 2))) ''guild''))
           ''guild'' = Some (Fin 2)"
    using two by (simp add: stored_examples step_examples)
  have c: "volumes (snd (decreaseVolume (snd (setVolume initial ''guild'' (Fin 0))) ''guild''))
           ''guild'' = Some (Fin 0)"
    using zero by (simp add: stored_examples step_examples)
  have d: "volumes (snd (increaseVolume
         (snd (setVolume initial ''guild'' (Fin (8782019273372467 / 4503599627370496))))
         ''guild'')) ''guild'' = Some (Fin 2)"
    using near by (simp add: stored_examples step_examples)
  have e: "getVolume initial ''guild'' = Fin 1
      \<and> volumes (snd (increaseVolume initial ''guild'')) ''guild''
           = Some (Fin (2476979795053773 / 2251799813685248))
      \<and> volumes (snd (decreaseVolume initial ''guild'')) ''guild''
           = Some (Fin (8106479329266893 / 9007199254740992))"
    using one by (simp add: stored_examples step_examples)
  show ?thesis
    using a b c d e tuned_volume stored_examples by simp
qed

section \<open>The transcoders of a guild\<close>
















lemma reuse_fields [simp]:
  "processes (snd (reuseConnection s g c)) = processes s"
  "ffmpegProcesses (snd (reuseConnection s g c)) = ffmpegProcesses s"
  "next_proc (snd (reuseConnection s g c)) = next_proc s"
  by (simp_all add: reuseConnection_def Let_def case_prod_beta createAudioPlayer_def
      split: option.splits)































end
